theory Spec2Isabelle
  imports Complex_Main
begin

section \<open>Errors\<close>

text \<open>
  The notebook defines no exception class of its own. Every failure of its code is an
  exception raised by Python or by torch; the model keeps the Python class of each.
  \<^item> \<open>KeyError\<close>: a dictionary subscript on a missing key;
  \<^item> \<open>IndexError\<close>: an index out of range (an embedding lookup, a subscript, an
    \<open>argmax\<close> of an empty tensor);
  \<^item> \<open>RuntimeError\<close>: torch's shape and dtype checks;
  \<^item> \<open>ZeroDivisionError\<close>: Python's float division by zero.
\<close>

datatype error = KeyError | IndexError | RuntimeError | ZeroDivisionError

section \<open>Step 1: tokenization\<close>

text \<open>
  \<^verbatim>\<open>
  def tokenize(text, vocab):
      return [vocab.get(word, vocab["<UNK>"]) for word in text.split()]
  \<close>
  A Python \<open>str\<close> is a sequence of Unicode code points, modelled as a list of naturals.
  \<open>str.split()\<close> without a separator splits at runs of whitespace and drops empty
  words; the whitespace characters are those of \<open>str.isspace\<close>.
\<close>

type_synonym str = "nat list"

definition py_str :: "string \<Rightarrow> str" where
  "py_str s = map of_char s"

definition isspace :: "nat \<Rightarrow> bool" where
  "isspace c =
     ((9 \<le> c \<and> c \<le> 13) \<or> (28 \<le> c \<and> c \<le> 32) \<or> c = 133 \<or> c = 160 \<or> c = 5760
      \<or> (8192 \<le> c \<and> c \<le> 8202) \<or> c = 8232 \<or> c = 8233 \<or> c = 8239 \<or> c = 8287
      \<or> c = 12288)"

text \<open>
  The scan of \<open>split\<close>: \<open>cur\<close> is the word read so far (empty between words). A
  whitespace character closes the current word, if there is one; the end of the text
  closes the last word.
\<close>

fun split_scan :: "str \<Rightarrow> str \<Rightarrow> str list" where
  "split_scan cur [] = (if cur = [] then [] else [cur])"
| "split_scan cur (c # cs) =
     (if isspace c then (if cur = [] then split_scan [] cs else cur # split_scan [] cs)
      else split_scan (cur @ [c]) cs)"

definition split :: "str \<Rightarrow> str list" where
  "split text = split_scan [] text"

definition UNK :: str where
  "UNK = py_str ''<UNK>''"

text \<open>
  The list comprehension, one word at a time. Python evaluates the arguments of
  \<open>vocab.get\<close> before the call, so \<open>vocab["<UNK>"]\<close> is looked up for every word,
  and raises \<open>KeyError\<close> when the key is missing, whether or not the word is in the
  vocabulary.
\<close>

fun tokenize_words :: "str list \<Rightarrow> (str \<rightharpoonup> 'v) \<Rightarrow> error + 'v list" where
  "tokenize_words [] vocab = Inr []"
| "tokenize_words (word # rest) vocab =
     (case vocab UNK of
        None \<Rightarrow> Inl KeyError
      | Some unk \<Rightarrow>
          (case tokenize_words rest vocab of
             Inl e \<Rightarrow> Inl e
           | Inr ids \<Rightarrow> Inr ((case vocab word of None \<Rightarrow> unk | Some i \<Rightarrow> i) # ids)))"

definition tokenize :: "str \<Rightarrow> (str \<rightharpoonup> 'v) \<Rightarrow> error + 'v list" where
  "tokenize text vocab = tokenize_words (split text) vocab"

text \<open>The vocabulary of the notebook's training cell.\<close>

definition notebook_vocab :: "str \<rightharpoonup> int" where
  "notebook_vocab = map_of
     [(py_str ''hello'', 0), (py_str ''world'', 1), (py_str ''what'', 2), (py_str ''are'', 3),
      (py_str ''you'', 4), (py_str ''doing'', 5), (py_str ''<UNK>'', 6)]"

text \<open>A vocabulary that holds a word of the text and no \<open><UNK>\<close> entry.\<close>

definition vocab_without_unk :: "str \<rightharpoonup> int" where
  "vocab_without_unk = map_of [(py_str ''hello'', 0), (py_str ''world'', 1)]"

section \<open>Tensors\<close>

text \<open>
  A torch tensor is a shape and its elements. The model has one record per rank the
  notebook uses, with the elements as a function of the indices; only the elements at
  indices within the shape are meaningful. Python floats and torch's \<open>float32\<close> are
  modelled as real numbers: arithmetic is exact, rounding is not modelled. A division
  by zero gives \<open>inf\<close> or \<open>nan\<close> in torch and 0 in HOL, so the theorems about a
  quotient assume that its divisor is not zero (a feature dimension \<open>d > 0\<close>).
\<close>

record tensor2 =
  rows :: nat
  cols :: nat
  at2 :: "nat \<Rightarrow> nat \<Rightarrow> real"

record tensor3 =
  size0 :: nat
  size1 :: nat
  size2 :: nat
  at3 :: "nat \<Rightarrow> nat \<Rightarrow> nat \<Rightarrow> real"

text \<open>A tensor of token ids, of shape (batch, length), with its dtype.\<close>

datatype dtype = Int64 | Float32

record itensor2 =
  isize0 :: nat
  isize1 :: nat
  idtype :: dtype
  iat :: "nat \<Rightarrow> nat \<Rightarrow> int"

definition shape3 :: "tensor3 \<Rightarrow> nat \<times> nat \<times> nat" where
  "shape3 t = (size0 t, size1 t, size2 t)"

text \<open>\<open>t.transpose(0, 1)\<close> and \<open>t.transpose(1, 2)\<close>.\<close>

definition transpose01 :: "tensor3 \<Rightarrow> tensor3" where
  "transpose01 t =
     \<lparr>size0 = size1 t, size1 = size0 t, size2 = size2 t, at3 = (\<lambda>i j k. at3 t j i k)\<rparr>"

definition transpose12 :: "tensor3 \<Rightarrow> tensor3" where
  "transpose12 t =
     \<lparr>size0 = size0 t, size1 = size2 t, size2 = size1 t, at3 = (\<lambda>n i j. at3 t n j i)\<rparr>"

text \<open>\<open>t.unsqueeze(0)\<close> of a matrix.\<close>

definition unsqueeze0 :: "tensor2 \<Rightarrow> tensor3" where
  "unsqueeze0 t = \<lparr>size0 = 1, size1 = rows t, size2 = cols t, at3 = (\<lambda>n i j. at2 t i j)\<rparr>"

text \<open>
  \<open>torch.bmm(a, b)\<close>: a batch of matrix products. The batch sizes must be equal and the
  inner dimensions must agree, else torch raises \<open>RuntimeError\<close>.
\<close>

definition bmm :: "tensor3 \<Rightarrow> tensor3 \<Rightarrow> error + tensor3" where
  "bmm a b =
     (if size0 a \<noteq> size0 b \<or> size2 a \<noteq> size1 b then Inl RuntimeError
      else Inr \<lparr>size0 = size0 a, size1 = size1 a, size2 = size2 b,
                 at3 = (\<lambda>n i j. \<Sum>k<size2 a. at3 a n i k * at3 b n k j)\<rparr>)"

text \<open>\<open>t / s\<close> for a scalar tensor \<open>s\<close>.\<close>

definition div_scalar :: "tensor3 \<Rightarrow> real \<Rightarrow> tensor3" where
  "div_scalar t s = t\<lparr>at3 := (\<lambda>n i j. at3 t n i j / s)\<rparr>"

text \<open>
  \<open>torch.softmax(t, dim=-1)\<close>, in exact arithmetic: \<open>exp x\<^sub>j / \<Sum> exp x\<^sub>k\<close> along the last
  dimension; an empty tensor is returned as it is. Over the reals no score is infinite
  and no weight is \<open>nan\<close>; \<open>softmax_f32\<close> below is the same operation with the range
  of \<open>float32\<close>, for the properties that an overflow breaks.
\<close>

definition softmax :: "tensor3 \<Rightarrow> tensor3" where
  "softmax t = t\<lparr>at3 := (\<lambda>n i j. exp (at3 t n i j) / (\<Sum>j'<size2 t. exp (at3 t n i j')))\<rparr>"

text \<open>\<open>nn.ReLU\<close>.\<close>

definition relu :: "tensor3 \<Rightarrow> tensor3" where
  "relu t = t\<lparr>at3 := (\<lambda>n i j. max 0 (at3 t n i j))\<rparr>"

text \<open>
  Broadcasting: two sizes are compatible when they are equal or one of them is 1, and
  the size-1 operand is read at index 0 along that dimension. \<open>a + b\<close> raises
  \<open>RuntimeError\<close> when a pair of sizes is not compatible.
\<close>

definition broadcast_size :: "nat \<Rightarrow> nat \<Rightarrow> nat option" where
  "broadcast_size a b =
     (if a = b then Some a else if a = 1 then Some b else if b = 1 then Some a else None)"

definition bidx :: "nat \<Rightarrow> nat \<Rightarrow> nat" where
  "bidx s i = (if s = 1 then 0 else i)"

definition add :: "tensor3 \<Rightarrow> tensor3 \<Rightarrow> error + tensor3" where
  "add a b =
     (case broadcast_size (size0 a) (size0 b) of None \<Rightarrow> Inl RuntimeError | Some n0 \<Rightarrow>
      case broadcast_size (size1 a) (size1 b) of None \<Rightarrow> Inl RuntimeError | Some n1 \<Rightarrow>
      case broadcast_size (size2 a) (size2 b) of None \<Rightarrow> Inl RuntimeError | Some n2 \<Rightarrow>
        Inr \<lparr>size0 = n0, size1 = n1, size2 = n2,
             at3 = (\<lambda>i j k. at3 a (bidx (size0 a) i) (bidx (size1 a) j) (bidx (size2 a) k)
                            + at3 b (bidx (size0 b) i) (bidx (size1 b) j) (bidx (size2 b) k))\<rparr>)"

text \<open>\<open>t[:n, :]\<close>: a slice is cut at the size of the tensor, it never fails.\<close>

definition slice0 :: "tensor3 \<Rightarrow> nat \<Rightarrow> tensor3" where
  "slice0 t n = t\<lparr>size0 := min n (size0 t)\<rparr>"

text \<open>
  \<open>t[:, -1, :]\<close>: index \<open>-1\<close> of a dimension of size 0 raises \<open>IndexError\<close>.
\<close>

definition select_last :: "tensor3 \<Rightarrow> error + tensor2" where
  "select_last t =
     (if size1 t = 0 then Inl IndexError
      else Inr \<lparr>rows = size0 t, cols = size2 t, at2 = (\<lambda>n k. at3 t n (size1 t - 1) k)\<rparr>)"

text \<open>
  \<open>torch.argmax(t)\<close> without a dimension: the index, in the flattened tensor, of the
  first maximal value. The scan keeps the earlier index unless a later value is
  strictly greater. An empty tensor raises \<open>IndexError\<close>.
\<close>

fun argmax_scan :: "(nat \<Rightarrow> real) \<Rightarrow> nat \<Rightarrow> nat" where
  "argmax_scan f 0 = 0"
| "argmax_scan f (Suc n) = (let b = argmax_scan f n in if f b < f (Suc n) then Suc n else b)"

definition flatten2 :: "tensor2 \<Rightarrow> nat \<Rightarrow> real" where
  "flatten2 t i = at2 t (i div cols t) (i mod cols t)"

definition argmax :: "tensor2 \<Rightarrow> error + nat" where
  "argmax t =
     (if rows t * cols t = 0 then Inl IndexError
      else Inr (argmax_scan (flatten2 t) (rows t * cols t - 1)))"

text \<open>
  \<open>torch.tensor(tokens).unsqueeze(0)\<close>: a list of Python ints becomes an \<open>int64\<close>
  tensor (an int outside the 64-bit range raises \<open>RuntimeError\<close>); the empty list
  becomes an empty \<open>float32\<close> tensor.
\<close>

definition tensor_unsqueeze0 :: "int list \<Rightarrow> error + itensor2" where
  "tensor_unsqueeze0 tokens =
     (if list_ex (\<lambda>t. t < - (2 ^ 63) \<or> 2 ^ 63 \<le> t) tokens then Inl RuntimeError
      else Inr \<lparr>isize0 = 1, isize1 = length tokens,
                 idtype = (if tokens = [] then Float32 else Int64),
                 iat = (\<lambda>n i. tokens ! i)\<rparr>)"

section \<open>\<open>nn.Linear\<close>, \<open>nn.LayerNorm\<close>, \<open>nn.Embedding\<close>\<close>

text \<open>
  \<open>nn.Linear(in_features, out_features)\<close>: \<open>weight\<close> has shape
  (out_features, in_features) and \<open>bias\<close> has shape (out_features). The forward pass
  computes \<open>x W\<^sup>T + b\<close> along the last dimension, and raises \<open>RuntimeError\<close> when the
  last dimension of the input is not \<open>in_features\<close>.
\<close>

record Linear =
  in_features :: nat
  out_features :: nat
  weight :: "nat \<Rightarrow> nat \<Rightarrow> real"
  bias :: "nat \<Rightarrow> real"

definition Linear_forward :: "Linear \<Rightarrow> tensor3 \<Rightarrow> error + tensor3" where
  "Linear_forward l x =
     (if size2 x \<noteq> in_features l then Inl RuntimeError
      else Inr \<lparr>size0 = size0 x, size1 = size1 x, size2 = out_features l,
                 at3 = (\<lambda>n i o'. (\<Sum>k<in_features l. at3 x n i k * Linear.weight l o' k)
                                  + Linear.bias l o')\<rparr>)"

text \<open>
  \<open>nn.LayerNorm(normalized_shape)\<close>, with \<open>eps = 1e-5\<close> and the learned \<open>weight\<close>
  and \<open>bias\<close>: over the last dimension,
  \<open>y = (x - E[x]) / sqrt(Var[x] + eps) * weight + bias\<close>, the variance being the
  biased one.
\<close>

record LayerNorm =
  normalized_shape :: nat
  eps :: real
  weight :: "nat \<Rightarrow> real"
  bias :: "nat \<Rightarrow> real"

definition mean :: "nat \<Rightarrow> (nat \<Rightarrow> real) \<Rightarrow> real" where
  "mean d v = (\<Sum>k<d. v k) / real d"

definition var :: "nat \<Rightarrow> (nat \<Rightarrow> real) \<Rightarrow> real" where
  "var d v = (\<Sum>k<d. (v k - mean d v)\<^sup>2) / real d"

definition LayerNorm_forward :: "LayerNorm \<Rightarrow> tensor3 \<Rightarrow> error + tensor3" where
  "LayerNorm_forward layer x =
     (if size2 x \<noteq> normalized_shape layer then Inl RuntimeError
      else Inr (x\<lparr>at3 := (\<lambda>n i k.
             (at3 x n i k - mean (size2 x) (at3 x n i))
               / sqrt (var (size2 x) (at3 x n i) + eps layer)
               * LayerNorm.weight layer k + LayerNorm.bias layer k)\<rparr>))"

text \<open>
  \<open>nn.Embedding(num_embeddings, embedding_dim)\<close>: a row lookup. The indices must be
  integers (\<open>RuntimeError\<close> otherwise) within \<open>[0, num_embeddings)\<close>
  (\<open>IndexError\<close> otherwise).
\<close>

record Embedding =
  num_embeddings :: nat
  embedding_dim :: nat
  weight :: "nat \<Rightarrow> nat \<Rightarrow> real"

definition index_out_of_range :: "nat \<Rightarrow> itensor2 \<Rightarrow> bool" where
  "index_out_of_range n x =
     list_ex (\<lambda>b. list_ex (\<lambda>i. iat x b i < 0 \<or> int n \<le> iat x b i) [0..<isize1 x]) [0..<isize0 x]"

definition Embedding_forward :: "Embedding \<Rightarrow> itensor2 \<Rightarrow> error + tensor3" where
  "Embedding_forward E x =
     (if idtype x \<noteq> Int64 then Inl RuntimeError
      else if index_out_of_range (num_embeddings E) x then Inl IndexError
      else Inr \<lparr>size0 = isize0 x, size1 = isize1 x, size2 = Embedding.embedding_dim E,
                 at3 = (\<lambda>b i k. Embedding.weight E (nat (iat x b i)) k)\<rparr>)"

section \<open>Step 2: the embedding layer\<close>

text \<open>
  \<^verbatim>\<open>
  class Embedding(nn.Module):
      def __init__(self, vocab_size, embedding_dim):
          self.embedding = nn.Embedding(vocab_size, embedding_dim)
      def forward(self, x):
          return self.embedding(x)
  \<close>
  The class only wraps \<open>nn.Embedding\<close>: the model uses \<open>Embedding_forward\<close> for it.
  In the definitions below, \<open>d\<close> stands for the constructors' \<open>embedding_dim\<close> and
  \<open>h\<close> for \<open>hidden_dim\<close>.
\<close>

section \<open>Step 3: positional encoding\<close>

text \<open>
  \<^verbatim>\<open>
  class PositionalEncoding(nn.Module):
      def __init__(self, embedding_dim, max_seq_len=5000):
          self.embedding_dim = embedding_dim
          pe = torch.zeros(max_seq_len, embedding_dim)
          position = torch.arange(0, max_seq_len, dtype=torch.float).unsqueeze(1)
          div_term = torch.exp(torch.arange(0, embedding_dim, 2).float()
                               * (-math.log(10000.0) / embedding_dim))
          pe[:, 0::2] = torch.sin(position * div_term)
          pe[:, 1::2] = torch.cos(position * div_term)
          pe = pe.unsqueeze(0).transpose(0, 1)
          self.register_buffer('pe', pe)
      def forward(self, x):
          return x + self.pe[:x.size(0), :]
  \<close>
\<close>

record PositionalEncoding =
  embedding_dim :: nat
  pe :: tensor3

definition zeros :: "nat \<Rightarrow> nat \<Rightarrow> tensor2" where
  "zeros r c = \<lparr>rows = r, cols = c, at2 = (\<lambda>i j. 0)\<rparr>"

text \<open>
  \<open>div_term[k]\<close>: \<open>torch.arange(0, embedding_dim, 2)\<close> has
  \<open>(embedding_dim + 1) div 2\<close> entries, the \<open>k\<close>-th being \<open>2 k\<close>.
\<close>

definition div_term :: "nat \<Rightarrow> nat \<Rightarrow> real" where
  "div_term d k = exp (real (2 * k) * (- ln 10000 / real d))"

text \<open>
  \<open>position * div_term\<close>: shapes (max_seq_len, 1) and ((embedding_dim + 1) div 2)
  broadcast to a matrix.
\<close>

definition angles :: "nat \<Rightarrow> nat \<Rightarrow> tensor2" where
  "angles d max_seq_len =
     \<lparr>rows = max_seq_len, cols = (d + 1) div 2,
      at2 = (\<lambda>p k. real p * div_term d k)\<rparr>"

definition map2_tensor :: "(real \<Rightarrow> real) \<Rightarrow> tensor2 \<Rightarrow> tensor2" where
  "map2_tensor f t = t\<lparr>at2 := (\<lambda>i j. f (at2 t i j))\<rparr>"

text \<open>
  \<open>t[:, start::2] = src\<close>: the slice has \<open>(cols t + 1 - start) div 2\<close> columns (for
  \<open>start\<close> 0 or 1), and \<open>src\<close> is expanded to the shape of the slice: each of its
  sizes must be the slice's or 1, else torch raises \<open>RuntimeError\<close>.
\<close>

definition setitem_step2 :: "nat \<Rightarrow> tensor2 \<Rightarrow> tensor2 \<Rightarrow> error + tensor2" where
  "setitem_step2 start t src =
     (let n = (cols t + 1 - start) div 2 in
      if (cols src = n \<or> cols src = 1) \<and> (rows src = rows t \<or> rows src = 1)
      then Inr (t\<lparr>at2 := (\<lambda>i j.
             if start \<le> j \<and> even (j - start)
             then at2 src (bidx (rows src) i) (bidx (cols src) ((j - start) div 2))
             else at2 t i j)\<rparr>)
      else Inl RuntimeError)"

definition PositionalEncoding_init :: "nat \<Rightarrow> nat \<Rightarrow> error + PositionalEncoding" where
  "PositionalEncoding_init d max_seq_len =
     (if d = 0 then Inl ZeroDivisionError
      else
        case setitem_step2 0 (zeros max_seq_len d)
               (map2_tensor sin (angles d max_seq_len)) of
          Inl e \<Rightarrow> Inl e
        | Inr pe0 \<Rightarrow>
            (case setitem_step2 1 pe0 (map2_tensor cos (angles d max_seq_len)) of
               Inl e \<Rightarrow> Inl e
             | Inr pe1 \<Rightarrow>
                 Inr \<lparr>PositionalEncoding.embedding_dim = d,
                      pe = transpose01 (unsqueeze0 pe1)\<rparr>))"

definition PositionalEncoding_forward :: "PositionalEncoding \<Rightarrow> tensor3 \<Rightarrow> error + tensor3" where
  "PositionalEncoding_forward P x = add x (slice0 (pe P) (size0 x))"

section \<open>Step 4: self-attention\<close>

text \<open>
  \<^verbatim>\<open>
  class SelfAttention(nn.Module):
      def __init__(self, embedding_dim):
          self.query = nn.Linear(embedding_dim, embedding_dim)
          self.key = nn.Linear(embedding_dim, embedding_dim)
          self.value = nn.Linear(embedding_dim, embedding_dim)
      def forward(self, x):
          queries = self.query(x)
          keys = self.key(x)
          values = self.value(x)
          scores = torch.bmm(queries, keys.transpose(1, 2))
                   / torch.sqrt(torch.tensor(x.size(-1), dtype=torch.float32))
          attention_weights = torch.softmax(scores, dim=-1)
          attended_values = torch.bmm(attention_weights, values)
          return attended_values
  \<close>
  \<open>SelfAttention_locals\<close> runs the body and returns the local \<open>attention_weights\<close>
  with the result, so that properties of the weights can be stated.
\<close>

record SelfAttention =
  query :: Linear
  key :: Linear
  value' :: Linear

definition SelfAttention_locals :: "SelfAttention \<Rightarrow> tensor3 \<Rightarrow> error + tensor3 \<times> tensor3" where
  "SelfAttention_locals sa x =
     (case Linear_forward (query sa) x of Inl e \<Rightarrow> Inl e | Inr queries \<Rightarrow>
      case Linear_forward (key sa) x of Inl e \<Rightarrow> Inl e | Inr keys \<Rightarrow>
      case Linear_forward (value' sa) x of Inl e \<Rightarrow> Inl e | Inr values \<Rightarrow>
      case bmm queries (transpose12 keys) of Inl e \<Rightarrow> Inl e | Inr qk \<Rightarrow>
        (let scores = div_scalar qk (sqrt (real (size2 x)));
             attention_weights = softmax scores
         in case bmm attention_weights values of Inl e \<Rightarrow> Inl e
            | Inr attended_values \<Rightarrow> Inr (attention_weights, attended_values)))"

definition SelfAttention_forward :: "SelfAttention \<Rightarrow> tensor3 \<Rightarrow> error + tensor3" where
  "SelfAttention_forward sa x =
     (case SelfAttention_locals sa x of Inl e \<Rightarrow> Inl e
      | Inr (attention_weights, attended_values) \<Rightarrow> Inr attended_values)"

section \<open>Step 5: the transformer block\<close>

text \<open>
  \<^verbatim>\<open>
  class TransformerBlock(nn.Module):
      def __init__(self, embedding_dim, hidden_dim):
          self.attention = SelfAttention(embedding_dim)
          self.feed_forward = nn.Sequential(
              nn.Linear(embedding_dim, hidden_dim),
              nn.ReLU(),
              nn.Linear(hidden_dim, embedding_dim))
          self.norm1 = nn.LayerNorm(embedding_dim)
          self.norm2 = nn.LayerNorm(embedding_dim)
      def forward(self, x):
          attended = self.attention(x)
          x = self.norm1(x + attended)
          forwarded = self.feed_forward(x)
          x = self.norm2(x + forwarded)
          return x
  \<close>
  \<open>feed_forward_0\<close> and \<open>feed_forward_2\<close> are the two linear layers of the
  \<open>nn.Sequential\<close>, by their positions in it.
\<close>

record TransformerBlock =
  attention :: SelfAttention
  feed_forward_0 :: Linear
  feed_forward_2 :: Linear
  norm1 :: LayerNorm
  norm2 :: LayerNorm

definition feed_forward :: "TransformerBlock \<Rightarrow> tensor3 \<Rightarrow> error + tensor3" where
  "feed_forward tb x =
     (case Linear_forward (feed_forward_0 tb) x of Inl e \<Rightarrow> Inl e | Inr h \<Rightarrow>
        Linear_forward (feed_forward_2 tb) (relu h))"

definition TransformerBlock_forward :: "TransformerBlock \<Rightarrow> tensor3 \<Rightarrow> error + tensor3" where
  "TransformerBlock_forward tb x =
     (case SelfAttention_forward (attention tb) x of Inl e \<Rightarrow> Inl e | Inr attended \<Rightarrow>
      case add x attended of Inl e \<Rightarrow> Inl e | Inr r1 \<Rightarrow>
      case LayerNorm_forward (norm1 tb) r1 of Inl e \<Rightarrow> Inl e | Inr x1 \<Rightarrow>
      case feed_forward tb x1 of Inl e \<Rightarrow> Inl e | Inr forwarded \<Rightarrow>
      case add x1 forwarded of Inl e \<Rightarrow> Inl e | Inr r2 \<Rightarrow>
        LayerNorm_forward (norm2 tb) r2)"

section \<open>The full language model\<close>

text \<open>
  \<^verbatim>\<open>
  class SimpleLLM(nn.Module):
      def __init__(self, vocab_size, embedding_dim, hidden_dim, num_layers):
          self.embedding = Embedding(vocab_size, embedding_dim)
          self.positional_encoding = PositionalEncoding(embedding_dim)
          self.transformer_blocks = nn.Sequential(
              *[TransformerBlock(embedding_dim, hidden_dim) for _ in range(num_layers)])
          self.output = nn.Linear(embedding_dim, vocab_size)
      def forward(self, x):
          x = self.embedding(x)
          x = x.transpose(0, 1) # Transpose for positional encoding
          x = self.positional_encoding(x)
          x = x.transpose(0, 1) # Transpose back
          x = self.transformer_blocks(x)
          x = self.output(x)
          return x
  \<close>
\<close>

record SimpleLLM =
  embedding :: Embedding
  positional_encoding :: PositionalEncoding
  transformer_blocks :: "TransformerBlock list"
  output' :: Linear

fun Sequential_forward :: "TransformerBlock list \<Rightarrow> tensor3 \<Rightarrow> error + tensor3" where
  "Sequential_forward [] x = Inr x"
| "Sequential_forward (tb # tbs) x =
     (case TransformerBlock_forward tb x of Inl e \<Rightarrow> Inl e
      | Inr y \<Rightarrow> Sequential_forward tbs y)"

definition SimpleLLM_forward :: "SimpleLLM \<Rightarrow> itensor2 \<Rightarrow> error + tensor3" where
  "SimpleLLM_forward m x =
     (case Embedding_forward (embedding m) x of Inl e \<Rightarrow> Inl e | Inr x1 \<Rightarrow>
      case PositionalEncoding_forward (positional_encoding m) (transpose01 x1) of
        Inl e \<Rightarrow> Inl e | Inr x2 \<Rightarrow>
      case Sequential_forward (transformer_blocks m) (transpose01 x2) of
        Inl e \<Rightarrow> Inl e | Inr x3 \<Rightarrow>
        Linear_forward (output' m) x3)"

text \<open>
  The notebook's test cell, as a function of the model and the token ids:
  \<^verbatim>\<open>
  input_tensor = torch.tensor(input_tokens).unsqueeze(0)
  output = model(input_tensor)
  predicted_token = torch.argmax(output[:, -1, :]).item()
  \<close>
\<close>

definition predict_next :: "SimpleLLM \<Rightarrow> int list \<Rightarrow> error + nat" where
  "predict_next m input_tokens =
     (case tensor_unsqueeze0 input_tokens of Inl e \<Rightarrow> Inl e | Inr input_tensor \<Rightarrow>
      case SimpleLLM_forward m input_tensor of Inl e \<Rightarrow> Inl e | Inr out \<Rightarrow>
      case select_last out of Inl e \<Rightarrow> Inl e | Inr last_logits \<Rightarrow>
        argmax last_logits)"

section \<open>Calls, with the module as state\<close>

text \<open>
  A Python method can assign to \<open>self\<close>, so a call \<open>self.sub(x)\<close> can change the
  submodule, and with it the module that holds it. Here a call takes the module and
  returns the result with the module as the call leaves it:
  \<^item> \<open>call_sub\<close> is a call \<open>self.sub(x)\<close>: it runs the submodule's call on the field
    \<open>sub\<close> and stores the submodule it returns back in the field;
  \<^item> \<open>then_call\<close> is the sequence of two statements: the second runs on the module
    the first has left, and an exception of the first ends the method;
  \<^item> \<open>return_call\<close> is the evaluation of an expression of torch functions on tensors
    (\<open>torch.bmm\<close>, \<open>+\<close>, a slice), which builds a new tensor and touches no module.
\<close>

definition call_sub ::
  "('s \<Rightarrow> 'c) \<Rightarrow> ('s \<Rightarrow> 'c \<Rightarrow> 's) \<Rightarrow> ('c \<Rightarrow> (error + 'a) \<times> 'c) \<Rightarrow> 's \<Rightarrow> (error + 'a) \<times> 's" where
  "call_sub getf setf f s = (case f (getf s) of (r, c) \<Rightarrow> (r, setf s c))"

definition then_call ::
  "('s \<Rightarrow> (error + 'a) \<times> 's) \<Rightarrow> ('a \<Rightarrow> 's \<Rightarrow> (error + 'b) \<times> 's) \<Rightarrow> 's \<Rightarrow> (error + 'b) \<times> 's" where
  "then_call c f s = (case c s of (Inl e, s') \<Rightarrow> (Inl e, s') | (Inr v, s') \<Rightarrow> f v s')"

definition return_call :: "error + 'a \<Rightarrow> 's \<Rightarrow> (error + 'a) \<times> 's" where
  "return_call r s = (r, s)"

text \<open>
  The forward passes of torch's own modules read their parameters and return a new
  tensor: \<open>nn.Linear.forward\<close> is \<open>F.linear(input, self.weight, self.bias)\<close>,
  \<open>nn.LayerNorm.forward\<close> is \<open>F.layer_norm(input, ..., self.weight, self.bias, self.eps)\<close>
  and \<open>nn.Embedding.forward\<close> is \<open>F.embedding(input, self.weight, ...)\<close>.
\<close>

definition Linear_call :: "Linear \<Rightarrow> tensor3 \<Rightarrow> (error + tensor3) \<times> Linear" where
  "Linear_call l x = (Linear_forward l x, l)"

definition LayerNorm_call :: "LayerNorm \<Rightarrow> tensor3 \<Rightarrow> (error + tensor3) \<times> LayerNorm" where
  "LayerNorm_call layer x = (LayerNorm_forward layer x, layer)"

definition Embedding_call :: "Embedding \<Rightarrow> itensor2 \<Rightarrow> (error + tensor3) \<times> Embedding" where
  "Embedding_call E x = (Embedding_forward E x, E)"

text \<open>
  The forward methods of the notebook, statement by statement. None of them has an
  assignment to an attribute or an in-place operation on a tensor; what a method does to
  its module is what its calls of submodules do to them.
\<close>

definition PositionalEncoding_call ::
  "PositionalEncoding \<Rightarrow> tensor3 \<Rightarrow> (error + tensor3) \<times> PositionalEncoding" where
  "PositionalEncoding_call P x = return_call (add x (slice0 (pe P) (size0 x))) P"

definition SelfAttention_call ::
  "SelfAttention \<Rightarrow> tensor3 \<Rightarrow> (error + tensor3) \<times> SelfAttention" where
  "SelfAttention_call sa x =
     then_call (call_sub query (\<lambda>s c. s\<lparr>query := c\<rparr>) (\<lambda>l. Linear_call l x)) (\<lambda>queries.
     then_call (call_sub key (\<lambda>s c. s\<lparr>key := c\<rparr>) (\<lambda>l. Linear_call l x)) (\<lambda>keys.
     then_call (call_sub value' (\<lambda>s c. s\<lparr>value' := c\<rparr>) (\<lambda>l. Linear_call l x)) (\<lambda>values.
     then_call (return_call (bmm queries (transpose12 keys))) (\<lambda>qk.
       (let scores = div_scalar qk (sqrt (real (size2 x)));
            attention_weights = softmax scores
        in return_call (bmm attention_weights values)))))) sa"

definition feed_forward_call ::
  "TransformerBlock \<Rightarrow> tensor3 \<Rightarrow> (error + tensor3) \<times> TransformerBlock" where
  "feed_forward_call tb x =
     then_call (call_sub feed_forward_0 (\<lambda>s c. s\<lparr>feed_forward_0 := c\<rparr>) (\<lambda>l. Linear_call l x))
       (\<lambda>h. call_sub feed_forward_2 (\<lambda>s c. s\<lparr>feed_forward_2 := c\<rparr>)
              (\<lambda>l. Linear_call l (relu h))) tb"

definition TransformerBlock_call ::
  "TransformerBlock \<Rightarrow> tensor3 \<Rightarrow> (error + tensor3) \<times> TransformerBlock" where
  "TransformerBlock_call tb x =
     then_call (call_sub attention (\<lambda>s c. s\<lparr>attention := c\<rparr>) (\<lambda>sa. SelfAttention_call sa x))
       (\<lambda>attended.
     then_call (return_call (add x attended)) (\<lambda>r1.
     then_call (call_sub norm1 (\<lambda>s c. s\<lparr>norm1 := c\<rparr>) (\<lambda>layer. LayerNorm_call layer r1)) (\<lambda>x1.
     then_call (\<lambda>s. feed_forward_call s x1) (\<lambda>forwarded.
     then_call (return_call (add x1 forwarded)) (\<lambda>r2.
       call_sub norm2 (\<lambda>s c. s\<lparr>norm2 := c\<rparr>) (\<lambda>layer. LayerNorm_call layer r2)))))) tb"

fun Sequential_call ::
  "TransformerBlock list \<Rightarrow> tensor3 \<Rightarrow> (error + tensor3) \<times> TransformerBlock list" where
  "Sequential_call [] x = (Inr x, [])"
| "Sequential_call (tb # tbs) x =
     (case TransformerBlock_call tb x of
        (Inl e, tb') \<Rightarrow> (Inl e, tb' # tbs)
      | (Inr y, tb') \<Rightarrow> (case Sequential_call tbs y of (r, tbs') \<Rightarrow> (r, tb' # tbs')))"

definition SimpleLLM_call :: "SimpleLLM \<Rightarrow> itensor2 \<Rightarrow> (error + tensor3) \<times> SimpleLLM" where
  "SimpleLLM_call m x =
     then_call (call_sub embedding (\<lambda>s c. s\<lparr>embedding := c\<rparr>) (\<lambda>E. Embedding_call E x)) (\<lambda>x1.
     then_call (call_sub positional_encoding (\<lambda>s c. s\<lparr>positional_encoding := c\<rparr>)
                  (\<lambda>P. PositionalEncoding_call P (transpose01 x1))) (\<lambda>x2.
     then_call (call_sub transformer_blocks (\<lambda>s c. s\<lparr>transformer_blocks := c\<rparr>)
                  (\<lambda>tbs. Sequential_call tbs (transpose01 x2))) (\<lambda>x3.
       call_sub output' (\<lambda>s c. s\<lparr>output' := c\<rparr>) (\<lambda>l. Linear_call l x3)))) m"

definition predict_next_call :: "SimpleLLM \<Rightarrow> int list \<Rightarrow> (error + nat) \<times> SimpleLLM" where
  "predict_next_call m input_tokens =
     then_call (return_call (tensor_unsqueeze0 input_tokens)) (\<lambda>input_tensor.
     then_call (\<lambda>s. SimpleLLM_call s input_tensor) (\<lambda>out.
     then_call (return_call (select_last out)) (\<lambda>last_logits.
       return_call (argmax last_logits)))) m"

section \<open>Self-attention in the range of \<open>float32\<close>\<close>




























section \<open>What the constructors establish\<close>

text \<open>
  The constructors draw the initial weights at random and training changes them; the
  shapes are fixed by the constructor's arguments. Each predicate says that an object
  has the shapes (and, for \<open>nn.LayerNorm\<close>, the default \<open>eps\<close>) its constructor gives
  it, whatever its weights are.
\<close>

definition is_Linear :: "nat \<Rightarrow> nat \<Rightarrow> Linear \<Rightarrow> bool" where
  "is_Linear n_in n_out l = (in_features l = n_in \<and> out_features l = n_out)"

definition is_LayerNorm :: "nat \<Rightarrow> LayerNorm \<Rightarrow> bool" where
  "is_LayerNorm d layer = (normalized_shape layer = d \<and> eps layer = 1 / 100000)"

definition is_SelfAttention :: "nat \<Rightarrow> SelfAttention \<Rightarrow> bool" where
  "is_SelfAttention d sa =
     (is_Linear d d (query sa) \<and> is_Linear d d (key sa) \<and> is_Linear d d (value' sa))"

definition is_TransformerBlock :: "nat \<Rightarrow> nat \<Rightarrow> TransformerBlock \<Rightarrow> bool" where
  "is_TransformerBlock d h tb =
     (is_SelfAttention d (attention tb) \<and> is_Linear d h (feed_forward_0 tb)
      \<and> is_Linear h d (feed_forward_2 tb) \<and> is_LayerNorm d (norm1 tb)
      \<and> is_LayerNorm d (norm2 tb))"

definition is_SimpleLLM :: "nat \<Rightarrow> nat \<Rightarrow> nat \<Rightarrow> nat \<Rightarrow> SimpleLLM \<Rightarrow> bool" where
  "is_SimpleLLM vocab_size d h num_layers m =
     (num_embeddings (embedding m) = vocab_size
      \<and> Embedding.embedding_dim (embedding m) = d
      \<and> PositionalEncoding_init d 5000 = Inr (positional_encoding m)
      \<and> length (transformer_blocks m) = num_layers
      \<and> list_all (is_TransformerBlock d h) (transformer_blocks m)
      \<and> is_Linear d vocab_size (output' m))"

section \<open>Self-attention as the specification describes it\<close>

text \<open>
  The steps of the specification, on one sequence of \<open>L\<close> vectors of dimension \<open>d\<close>
  given as a function of the position and the feature index: project the input through
  the three learned maps (each \<open>nn.Linear\<close>, a matrix and a bias), take the scores
  \<open>Q K\<^sup>T\<close>, scale them by \<open>1 / sqrt d\<close>, apply the softmax to each row, and multiply
  the weights by \<open>V\<close>.
\<close>

definition spec_project :: "Linear \<Rightarrow> (nat \<Rightarrow> nat \<Rightarrow> real) \<Rightarrow> nat \<Rightarrow> nat \<Rightarrow> real" where
  "spec_project l x i c = (\<Sum>k<in_features l. x i k * Linear.weight l c k) + Linear.bias l c"

definition spec_scores :: "nat \<Rightarrow> (nat \<Rightarrow> nat \<Rightarrow> real) \<Rightarrow> (nat \<Rightarrow> nat \<Rightarrow> real) \<Rightarrow> nat \<Rightarrow> nat \<Rightarrow> real" where
  "spec_scores d Q K i j = (\<Sum>k<d. Q i k * K j k)"

definition spec_scaled :: "nat \<Rightarrow> (nat \<Rightarrow> nat \<Rightarrow> real) \<Rightarrow> nat \<Rightarrow> nat \<Rightarrow> real" where
  "spec_scaled d s i j = (1 / sqrt (real d)) * s i j"

definition spec_softmax :: "nat \<Rightarrow> (nat \<Rightarrow> nat \<Rightarrow> real) \<Rightarrow> nat \<Rightarrow> nat \<Rightarrow> real" where
  "spec_softmax L s i j = exp (s i j) / (\<Sum>j'<L. exp (s i j'))"

definition spec_attention_weights ::
  "SelfAttention \<Rightarrow> nat \<Rightarrow> nat \<Rightarrow> (nat \<Rightarrow> nat \<Rightarrow> real) \<Rightarrow> nat \<Rightarrow> nat \<Rightarrow> real" where
  "spec_attention_weights sa L d x =
     spec_softmax L (spec_scaled d
       (spec_scores d (spec_project (query sa) x) (spec_project (key sa) x)))"

definition spec_attend ::
  "SelfAttention \<Rightarrow> nat \<Rightarrow> nat \<Rightarrow> (nat \<Rightarrow> nat \<Rightarrow> real) \<Rightarrow> nat \<Rightarrow> nat \<Rightarrow> real" where
  "spec_attend sa L d x i c =
     (\<Sum>j<L. spec_attention_weights sa L d x i j * spec_project (value' sa) x j c)"

section \<open>The transformer block as the specification describes it\<close>

text \<open>
  On one position's vector \<open>v\<close> of dimension \<open>d\<close>: the normalization of a layer norm
  (\<open>spec_normalize\<close>, with the \<open>eps\<close> that \<open>nn.LayerNorm\<close> adds to the variance), the
  layer norm with its learned scale and shift, a linear layer, and the feed-forward
  network linear, ReLU, linear. \<open>spec_x1\<close> and \<open>spec_process\<close> are steps 2 and 4 of the
  specification's block, on a sequence given as a function of position and feature.
\<close>

definition spec_normalize :: "real \<Rightarrow> nat \<Rightarrow> (nat \<Rightarrow> real) \<Rightarrow> nat \<Rightarrow> real" where
  "spec_normalize e d v k = (v k - mean d v) / sqrt (var d v + e)"

definition spec_LayerNorm :: "LayerNorm \<Rightarrow> (nat \<Rightarrow> real) \<Rightarrow> nat \<Rightarrow> real" where
  "spec_LayerNorm layer v k =
     spec_normalize (eps layer) (normalized_shape layer) v k * LayerNorm.weight layer k
       + LayerNorm.bias layer k"

definition spec_linear :: "Linear \<Rightarrow> (nat \<Rightarrow> real) \<Rightarrow> nat \<Rightarrow> real" where
  "spec_linear l v c = (\<Sum>k<in_features l. v k * Linear.weight l c k) + Linear.bias l c"

definition spec_FeedForward :: "TransformerBlock \<Rightarrow> (nat \<Rightarrow> real) \<Rightarrow> nat \<Rightarrow> real" where
  "spec_FeedForward tb v =
     spec_linear (feed_forward_2 tb) (\<lambda>j. max 0 (spec_linear (feed_forward_0 tb) v j))"

definition spec_x1 ::
  "TransformerBlock \<Rightarrow> nat \<Rightarrow> nat \<Rightarrow> (nat \<Rightarrow> nat \<Rightarrow> real) \<Rightarrow> nat \<Rightarrow> nat \<Rightarrow> real" where
  "spec_x1 tb L d x i =
     spec_LayerNorm (norm1 tb) (\<lambda>k. x i k + spec_attend (attention tb) L d x i k)"

definition spec_process ::
  "TransformerBlock \<Rightarrow> nat \<Rightarrow> nat \<Rightarrow> (nat \<Rightarrow> nat \<Rightarrow> real) \<Rightarrow> nat \<Rightarrow> nat \<Rightarrow> real" where
  "spec_process tb L d x i =
     spec_LayerNorm (norm2 tb)
       (\<lambda>k. spec_x1 tb L d x i k + spec_FeedForward tb (spec_x1 tb L d x i) k)"

section \<open>Example objects\<close>

text \<open>Concrete modules and inputs, on which the theorems below are instantiated.\<close>

definition example_Linear :: "nat \<Rightarrow> nat \<Rightarrow> Linear" where
  "example_Linear n_in n_out =
     \<lparr>in_features = n_in, out_features = n_out,
      Linear.weight = (\<lambda>r c. if r = c then 1 else 0), Linear.bias = (\<lambda>r. 0)\<rparr>"

definition example_SelfAttention :: "nat \<Rightarrow> SelfAttention" where
  "example_SelfAttention d =
     \<lparr>query = example_Linear d d, key = example_Linear d d, value' = example_Linear d d\<rparr>"

definition example_sequence :: tensor3 where
  "example_sequence = \<lparr>size0 = 1, size1 = 2, size2 = 2, at3 = (\<lambda>n i k. if i = k then 1 else 0)\<rparr>"

definition empty_sequence :: tensor3 where
  "empty_sequence = \<lparr>size0 = 1, size1 = 0, size2 = 2, at3 = (\<lambda>n i k. 0)\<rparr>"

text \<open>
  Tensors of shape (2, 1, 2) and (3, 1, 2), as \<open>PositionalEncoding.forward\<close> receives
  them: two or three positions, a batch of one, two features.
\<close>

definition two_positions :: tensor3 where
  "two_positions = \<lparr>size0 = 2, size1 = 1, size2 = 2, at3 = (\<lambda>i b k. 0)\<rparr>"

definition three_positions :: tensor3 where
  "three_positions = \<lparr>size0 = 3, size1 = 1, size2 = 2, at3 = (\<lambda>i b k. 0)\<rparr>"

text \<open>
  A layer norm with the parameters \<open>nn.LayerNorm\<close> starts from (scale 1, shift 0), a
  block of example layers, and a sequence of one position whose two features are equal.
\<close>

definition example_LayerNorm :: "nat \<Rightarrow> LayerNorm" where
  "example_LayerNorm d =
     \<lparr>normalized_shape = d, eps = 1 / 100000,
      LayerNorm.weight = (\<lambda>k. 1), LayerNorm.bias = (\<lambda>k. 0)\<rparr>"

definition example_TransformerBlock :: "nat \<Rightarrow> nat \<Rightarrow> TransformerBlock" where
  "example_TransformerBlock d h =
     \<lparr>attention = example_SelfAttention d,
      feed_forward_0 = example_Linear d h, feed_forward_2 = example_Linear h d,
      norm1 = example_LayerNorm d, norm2 = example_LayerNorm d\<rparr>"

definition constant_sequence :: tensor3 where
  "constant_sequence = \<lparr>size0 = 1, size1 = 1, size2 = 2, at3 = (\<lambda>n i k. 3)\<rparr>"

text \<open>
  A model of the notebook's sizes (7 words, dimension 16, hidden dimension 32, 2 blocks).
  Its output layer has weight 0, so the logits of every position are the bias of that
  layer, which has its maximum 1 at the indices 2 and 5.
\<close>

definition example_SimpleLLM :: SimpleLLM where
  "example_SimpleLLM =
     \<lparr>embedding = \<lparr>num_embeddings = 7, Embedding.embedding_dim = 16,
                    Embedding.weight = (\<lambda>t k. 0)\<rparr>,
      positional_encoding = projr (PositionalEncoding_init 16 5000),
      transformer_blocks = [example_TransformerBlock 16 32, example_TransformerBlock 16 32],
      output' = \<lparr>in_features = 16, out_features = 7, Linear.weight = (\<lambda>r c. 0),
                 Linear.bias = (\<lambda>r. if r = 2 \<or> r = 5 then 1 else 0)\<rparr>\<rparr>"


section \<open>Properties of the tokenizer\<close>

lemma py_str_eq_iff [simp]: "py_str a = py_str b \<longleftrightarrow> a = b"
  unfolding py_str_def by (simp add: inj_map_eq_map inj_of_char)

lemma split_scan_Nil_iff:
  "split_scan cur cs = [] \<longleftrightarrow> cur = [] \<and> (\<forall>c \<in> set cs. isspace c)"
  by (induction cs arbitrary: cur) auto

lemma split_Nil_iff: "split text = [] \<longleftrightarrow> (\<forall>c \<in> set text. isspace c)"
  unfolding split_def by (simp add: split_scan_Nil_iff)

lemma split_scan_words:
  "\<forall>c \<in> set cur. \<not> isspace c \<Longrightarrow> w \<in> set (split_scan cur cs)
   \<Longrightarrow> w \<noteq> [] \<and> (\<forall>c \<in> set w. \<not> isspace c)"
proof (induction cs arbitrary: cur)
  case Nil
  then show ?case by (auto split: if_splits)
next
  case (Cons c cs)
  show ?case
  proof (cases "isspace c")
    case True
    with Cons.prems have "w = cur \<and> cur \<noteq> [] \<or> w \<in> set (split_scan [] cs)"
      by (auto split: if_splits)
    then show ?thesis
    proof
      assume "w = cur \<and> cur \<noteq> []"
      with Cons.prems(1) show ?thesis by simp
    next
      assume "w \<in> set (split_scan [] cs)"
      then show ?thesis using Cons.IH [of "[]"] by simp
    qed
  next
    case False
    with Cons.prems have "w \<in> set (split_scan (cur @ [c]) cs)" by simp
    moreover from False Cons.prems(1) have "\<forall>d \<in> set (cur @ [c]). \<not> isspace d" by simp
    ultimately show ?thesis using Cons.IH [of "cur @ [c]"] by blast
  qed
qed

lemma split_words:
  "w \<in> set (split text) \<Longrightarrow> w \<noteq> [] \<and> (\<forall>c \<in> set w. \<not> isspace c)"
  unfolding split_def using split_scan_words [of "[]" w] by simp

lemma split_scan_concat:
  "concat (split_scan cur cs) = cur @ filter (\<lambda>c. \<not> isspace c) cs"
  by (induction cs arbitrary: cur) auto

lemma split_concat: "concat (split text) = filter (\<lambda>c. \<not> isspace c) text"
  unfolding split_def by (simp add: split_scan_concat)

lemma tokenize_words_Some:
  "vocab UNK = Some unk \<Longrightarrow>
   tokenize_words ws vocab = Inr (map (\<lambda>w. case vocab w of None \<Rightarrow> unk | Some i \<Rightarrow> i) ws)"
  by (induction ws) simp_all

lemma tokenize_words_None:
  "vocab UNK = None \<Longrightarrow> ws \<noteq> [] \<Longrightarrow> tokenize_words ws vocab = Inl KeyError"
  by (cases ws) simp_all



section \<open>Properties of self-attention\<close>

lemma SelfAttention_locals_ok:
  assumes "is_SelfAttention d sa" "size2 x = d"
  shows "SelfAttention_locals sa x =
    Inr (\<lparr>size0 = size0 x, size1 = size1 x, size2 = size1 x,
          at3 = (\<lambda>n i j. spec_attention_weights sa (size1 x) d (at3 x n) i j)\<rparr>,
         \<lparr>size0 = size0 x, size1 = size1 x, size2 = d,
          at3 = (\<lambda>n i c. spec_attend sa (size1 x) d (at3 x n) i c)\<rparr>)"
  using assms
  by (simp add: SelfAttention_locals_def is_SelfAttention_def is_Linear_def Linear_forward_def
      bmm_def transpose12_def div_scalar_def softmax_def Let_def
      spec_attend_def spec_attention_weights_def spec_softmax_def spec_scaled_def
      spec_scores_def spec_project_def)

lemma is_example_SelfAttention: "is_SelfAttention d (example_SelfAttention d)"
  by (simp add: is_SelfAttention_def example_SelfAttention_def is_Linear_def example_Linear_def)

section \<open>Properties of the positional encoding\<close>

lemma bidx_in_range: "i < s \<Longrightarrow> bidx s i = i"
  by (auto simp add: bidx_def)

lemma step1_cols: "0 < d \<Longrightarrow> (Suc d div 2 = d div 2 \<or> Suc d div 2 = Suc 0) \<longleftrightarrow> (even d \<or> d = 1)"
  by presburger

lemma PositionalEncoding_init_Inr_iff:
  "(\<exists>P. PositionalEncoding_init d M = Inr P) \<longleftrightarrow> 0 < d \<and> (even d \<or> d = 1)"
proof (cases "d = 0")
  case True
  then show ?thesis by (simp add: PositionalEncoding_init_def)
next
  case False
  then have d: "0 < d" by simp
  show ?thesis using d step1_cols [OF d]
    by (simp add: PositionalEncoding_init_def setitem_step2_def zeros_def angles_def
        map2_tensor_def Let_def)
qed

lemma setitem_step2_Inr:
  assumes "setitem_step2 start t src = Inr t'"
  shows "rows t' = rows t" and "cols t' = cols t"
    and "at2 t' i j = (if start \<le> j \<and> even (j - start)
           then at2 src (bidx (rows src) i) (bidx (cols src) ((j - start) div 2))
           else at2 t i j)"
  using assms by (auto simp add: setitem_step2_def Let_def split: if_splits)

lemma PositionalEncoding_init_pe:
  assumes "PositionalEncoding_init d M = Inr P"
  shows "PositionalEncoding.embedding_dim P = d \<and> shape3 (pe P) = (M, 1, d)
    \<and> (\<forall>p<M. \<forall>j<d. at3 (pe P) p 0 j =
          (if even j then sin (real p * div_term d (j div 2))
           else cos (real p * div_term d (j div 2))))"
proof -
  let ?S = "map2_tensor sin (angles d M)" and ?C = "map2_tensor cos (angles d M)"
  from assms obtain pe0 pe1 where
    s0: "setitem_step2 0 (zeros M d) ?S = Inr pe0" and
    s1: "setitem_step2 1 pe0 ?C = Inr pe1" and
    P: "P = \<lparr>PositionalEncoding.embedding_dim = d, pe = transpose01 (unsqueeze0 pe1)\<rparr>"
    by (auto simp add: PositionalEncoding_init_def split: if_splits sum.splits)
  have shape: "rows pe1 = M" "cols pe1 = d"
    using setitem_step2_Inr(1,2) [OF s0] setitem_step2_Inr(1,2) [OF s1]
    by (simp_all add: zeros_def)
  have val: "at2 pe1 p j = (if even j then sin (real p * div_term d (j div 2))
           else cos (real p * div_term d (j div 2)))" if "p < M" "j < d" for p j
  proof -
    have r: "bidx M p = p" using that(1) by (rule bidx_in_range)
    have "j div 2 < Suc d div 2" using that(2) by presburger
    then have c: "bidx (Suc d div 2) (j div 2) = j div 2" by (rule bidx_in_range)
    show ?thesis
    proof (cases "even j")
      case True
      then have n1: "\<not> (1 \<le> j \<and> even (j - 1))" by presburger
      from True have y0: "0 \<le> j \<and> even (j - 0)" by simp
      have "at2 pe1 p j = at2 pe0 p j"
        unfolding setitem_step2_Inr(3) [OF s1, of p j] using n1 by (simp only: if_False simp_thms)
      also have "\<dots> = at2 ?S (bidx (rows ?S) p) (bidx (cols ?S) ((j - 0) div 2))"
        unfolding setitem_step2_Inr(3) [OF s0, of p j] using y0 by (simp only: if_True simp_thms)
      also have "\<dots> = sin (real p * div_term d (j div 2))"
        by (simp add: map2_tensor_def angles_def r c)
      finally show ?thesis using True by simp
    next
      case False
      then have y1: "1 \<le> j \<and> even (j - 1)" and h: "(j - 1) div 2 = j div 2" by presburger+
      have "at2 pe1 p j = at2 ?C (bidx (rows ?C) p) (bidx (cols ?C) ((j - 1) div 2))"
        unfolding setitem_step2_Inr(3) [OF s1, of p j] using y1 by (simp only: if_True simp_thms)
      also have "\<dots> = cos (real p * div_term d (j div 2))"
        unfolding h by (simp add: map2_tensor_def angles_def r c)
      finally show ?thesis using False by simp
    qed
  qed
  show ?thesis
    unfolding P using shape val
    by (simp add: shape3_def transpose01_def unsqueeze0_def)
qed


lemma div_term_powr: "0 < d \<Longrightarrow> div_term d k = 1 / 10000 powr (real (2 * k) / real d)"
  by (simp add: div_term_def powr_def exp_minus divide_inverse mult.commute)

section \<open>Properties of the transformer block\<close>

lemma add_same_shape:
  assumes "shape3 a = shape3 b"
  shows "\<exists>r. add a b = Inr r \<and> shape3 r = shape3 a
    \<and> (\<forall>n<size0 a. \<forall>i<size1 a. \<forall>k<size2 a. at3 r n i k = at3 a n i k + at3 b n i k)"
  using assms by (simp add: add_def broadcast_size_def shape3_def bidx_in_range)

lemma mean_cong: "(\<And>k. k < d \<Longrightarrow> v k = v' k) \<Longrightarrow> mean d v = mean d v'"
  by (simp add: mean_def)

lemma var_cong:
  assumes "\<And>k. k < d \<Longrightarrow> v k = v' k"
  shows "var d v = var d v'"
  using assms mean_cong [of d v v'] by (simp add: var_def)

lemma spec_LayerNorm_cong:
  assumes "normalized_shape layer = d" and "\<And>k. k < d \<Longrightarrow> v k = v' k" and "k < d"
  shows "spec_LayerNorm layer v k = spec_LayerNorm layer v' k"
  using assms mean_cong [of d v v'] var_cong [of d v v']
  by (simp add: spec_LayerNorm_def spec_normalize_def)

lemma spec_linear_cong:
  "(\<And>k. k < in_features l \<Longrightarrow> v k = v' k) \<Longrightarrow> spec_linear l v c = spec_linear l v' c"
  by (simp add: spec_linear_def)

lemma spec_FeedForward_cong:
  assumes "\<And>k. k < in_features (feed_forward_0 tb) \<Longrightarrow> v k = v' k"
  shows "spec_FeedForward tb v c = spec_FeedForward tb v' c"
proof -
  have "spec_linear (feed_forward_0 tb) v j = spec_linear (feed_forward_0 tb) v' j" for j
    using assms by (rule spec_linear_cong)
  then show ?thesis by (simp add: spec_FeedForward_def)
qed

lemma LayerNorm_forward_ok:
  assumes "size2 x = normalized_shape layer"
  shows "\<exists>y. LayerNorm_forward layer x = Inr y \<and> shape3 y = shape3 x
    \<and> (\<forall>n i k. at3 y n i k = spec_LayerNorm layer (at3 x n i) k)"
  using assms by (simp add: LayerNorm_forward_def shape3_def spec_LayerNorm_def spec_normalize_def)

lemma feed_forward_ok:
  assumes "is_Linear d h (feed_forward_0 tb)" and "is_Linear h d (feed_forward_2 tb)"
    and "size2 x = d"
  shows "\<exists>f. feed_forward tb x = Inr f \<and> shape3 f = shape3 x
    \<and> (\<forall>n i c. at3 f n i c = spec_FeedForward tb (at3 x n i) c)"
  using assms
  by (simp add: feed_forward_def Linear_forward_def is_Linear_def relu_def shape3_def
      spec_FeedForward_def spec_linear_def)


lemma SelfAttention_forward_ok:
  assumes "is_SelfAttention d sa" and "size2 x = d"
  shows "\<exists>y. SelfAttention_forward sa x = Inr y \<and> shape3 y = shape3 x
    \<and> (\<forall>n i c. at3 y n i c = spec_attend sa (size1 x) d (at3 x n) i c)"
  using assms(2) SelfAttention_locals_ok [OF assms]
  by (simp add: SelfAttention_forward_def shape3_def)

lemma TransformerBlock_forward_ok:
  assumes tb: "is_TransformerBlock d h tb" and x: "size2 x = d"
  shows "\<exists>y. TransformerBlock_forward tb x = Inr y \<and> shape3 y = shape3 x
    \<and> (\<forall>n<size0 x. \<forall>i<size1 x. \<forall>k<d.
          at3 y n i k = spec_process tb (size1 x) d (at3 x n) i k)"
proof -
  from tb have sa: "is_SelfAttention d (attention tb)"
    and f0: "is_Linear d h (feed_forward_0 tb)" and f2: "is_Linear h d (feed_forward_2 tb)"
    and n1: "normalized_shape (norm1 tb) = d" and n2: "normalized_shape (norm2 tb) = d"
    by (simp_all add: is_TransformerBlock_def is_LayerNorm_def)
  from SelfAttention_forward_ok [OF sa x] obtain attended where
    a: "SelfAttention_forward (attention tb) x = Inr attended"
    and as: "shape3 attended = shape3 x"
    and av: "\<And>n i c. at3 attended n i c = spec_attend (attention tb) (size1 x) d (at3 x n) i c"
    by blast
  from add_same_shape [of x attended] as obtain r1 where
    r1: "add x attended = Inr r1" and r1s: "shape3 r1 = shape3 x"
    and r1v: "\<And>n i k. n < size0 x \<Longrightarrow> i < size1 x \<Longrightarrow> k < size2 x
                \<Longrightarrow> at3 r1 n i k = at3 x n i k + at3 attended n i k"
    by auto
  from r1s x n1 have "size2 r1 = normalized_shape (norm1 tb)" by (simp add: shape3_def)
  from LayerNorm_forward_ok [OF this] obtain x1 where
    x1: "LayerNorm_forward (norm1 tb) r1 = Inr x1" and x1s: "shape3 x1 = shape3 r1"
    and x1v: "\<And>n i k. at3 x1 n i k = spec_LayerNorm (norm1 tb) (at3 r1 n i) k"
    by blast
  from x1s r1s x have x1d: "size2 x1 = d" by (simp add: shape3_def)
  from feed_forward_ok [OF f0 f2 x1d] obtain forwarded where
    f: "feed_forward tb x1 = Inr forwarded" and fs: "shape3 forwarded = shape3 x1"
    and fv: "\<And>n i c. at3 forwarded n i c = spec_FeedForward tb (at3 x1 n i) c"
    by blast
  from add_same_shape [of x1 forwarded] fs obtain r2 where
    r2: "add x1 forwarded = Inr r2" and r2s: "shape3 r2 = shape3 x1"
    and r2v: "\<And>n i k. n < size0 x1 \<Longrightarrow> i < size1 x1 \<Longrightarrow> k < size2 x1
                \<Longrightarrow> at3 r2 n i k = at3 x1 n i k + at3 forwarded n i k"
    by auto
  from r2s x1d n2 have "size2 r2 = normalized_shape (norm2 tb)" by (simp add: shape3_def)
  from LayerNorm_forward_ok [OF this] obtain y where
    y: "LayerNorm_forward (norm2 tb) r2 = Inr y" and ys: "shape3 y = shape3 r2"
    and yv: "\<And>n i k. at3 y n i k = spec_LayerNorm (norm2 tb) (at3 r2 n i) k"
    by blast
  have fwd: "TransformerBlock_forward tb x = Inr y"
    by (simp add: TransformerBlock_forward_def a r1 x1 f r2 y)
  have shape: "shape3 y = shape3 x" using ys r2s x1s r1s by simp
  have val: "at3 y n i k = spec_process tb (size1 x) d (at3 x n) i k"
    if n: "n < size0 x" and i: "i < size1 x" and k: "k < d" for n i k
  proof -
    let ?X1 = "spec_x1 tb (size1 x) d (at3 x n) i"
    have e1: "at3 x1 n i k' = ?X1 k'" if "k' < d" for k'
    proof -
      have "at3 r1 n i j = at3 x n i j + spec_attend (attention tb) (size1 x) d (at3 x n) i j"
        if "j < d" for j
        using r1v [OF n i, of j] that x by (simp add: av)
      then show ?thesis
        unfolding x1v spec_x1_def using that by (intro spec_LayerNorm_cong [OF n1]) simp_all
    qed
    have e2: "at3 forwarded n i c = spec_FeedForward tb ?X1 c" for c
      unfolding fv using f0 e1 by (intro spec_FeedForward_cong) (simp add: is_Linear_def)
    have sz: "n < size0 x1" "i < size1 x1" "size2 x1 = d"
      using n i x x1s r1s by (simp_all add: shape3_def)
    have e3: "at3 r2 n i k' = ?X1 k' + spec_FeedForward tb ?X1 k'" if "k' < d" for k'
      using r2v [OF sz(1,2), of k'] that sz(3) by (simp add: e1 e2)
    show ?thesis
      unfolding yv spec_process_def using k e3 by (intro spec_LayerNorm_cong [OF n2]) simp_all
  qed
  from fwd shape val show ?thesis by blast
qed

lemma sum_mean_zero:
  assumes "0 < d"
  shows "(\<Sum>k<d. v k - mean d v) = 0"
  using assms by (simp add: mean_def sum_subtractf)

lemma mean_normalize:
  assumes "0 < d"
  shows "mean d (spec_normalize e d v) = 0"
proof -
  have "(\<Sum>k<d. spec_normalize e d v k) = (\<Sum>k<d. v k - mean d v) / sqrt (var d v + e)"
    unfolding spec_normalize_def by (rule sum_divide_distrib [symmetric])
  then show ?thesis using sum_mean_zero [OF assms, of v] by (simp add: mean_def)
qed

lemma var_nonneg: "0 \<le> var d v"
  by (simp add: var_def sum_nonneg)

lemma var_normalize:
  assumes "0 < d" and "0 < e"
  shows "var d (spec_normalize e d v) = var d v / (var d v + e)"
proof -
  have pos: "0 < var d v + e" using var_nonneg [of d v] assms(2) by linarith
  have "(\<Sum>k<d. (spec_normalize e d v k - mean d (spec_normalize e d v))\<^sup>2)
        = (\<Sum>k<d. (v k - mean d v)\<^sup>2 / (var d v + e))"
    using pos by (simp add: mean_normalize [OF assms(1)] spec_normalize_def power_divide)
  also have "\<dots> = (\<Sum>k<d. (v k - mean d v)\<^sup>2) / (var d v + e)"
    by (rule sum_divide_distrib [symmetric])
  finally show ?thesis by (simp add: var_def)
qed


lemma is_example_TransformerBlock: "is_TransformerBlock d h (example_TransformerBlock d h)"
  by (simp add: is_TransformerBlock_def example_TransformerBlock_def is_example_SelfAttention
      is_Linear_def example_Linear_def is_LayerNorm_def example_LayerNorm_def)

lemma LayerNorm_constant_vector:
  "map_sum id (\<lambda>y. (at3 y 0 0 0, at3 y 0 0 1, var 2 (at3 y 0 0)))
     (LayerNorm_forward (example_LayerNorm 2) constant_sequence) = Inr (0, 0, 0)"
  by (simp add: LayerNorm_forward_def example_LayerNorm_def constant_sequence_def
      mean_def var_def lessThan_Suc numeral_2_eq_2)

section \<open>Properties of the language model\<close>

lemma argmax_scan_le: "argmax_scan f n \<le> n"
  by (induction n) (auto simp add: Let_def le_SucI)

lemma argmax_scan_max: "j \<le> n \<Longrightarrow> f j \<le> f (argmax_scan f n)"
proof (induction n)
  case 0
  then show ?case by simp
next
  case (Suc n)
  show ?case
  proof (cases "j = Suc n")
    case True
    then show ?thesis by (simp add: Let_def)
  next
    case False
    with Suc.prems have "j \<le> n" by simp
    from Suc.IH [OF this] show ?thesis by (simp add: Let_def)
  qed
qed

lemma argmax_scan_first: "j < argmax_scan f n \<Longrightarrow> f j < f (argmax_scan f n)"
proof (induction n)
  case 0
  then show ?case by simp
next
  case (Suc n)
  show ?case
  proof (cases "f (argmax_scan f n) < f (Suc n)")
    case True
    with Suc.prems have "j \<le> n" by (simp add: Let_def)
    from argmax_scan_max [OF this, of f] True show ?thesis by (simp add: Let_def)
  next
    case False
    with Suc show ?thesis by (simp add: Let_def)
  qed
qed

lemma index_out_of_range_iff:
  "index_out_of_range n x \<longleftrightarrow>
     (\<exists>b<isize0 x. \<exists>i<isize1 x. iat x b i < 0 \<or> int n \<le> iat x b i)"
  by (simp add: index_out_of_range_def list_ex_iff Bex_def)

lemma Embedding_forward_Inr_iff:
  "(\<exists>y. Embedding_forward E x = Inr y) \<longleftrightarrow>
     idtype x = Int64 \<and> \<not> index_out_of_range (num_embeddings E) x"
  by (simp add: Embedding_forward_def)

lemma Embedding_forward_shape:
  "Embedding_forward E x = Inr y \<Longrightarrow> shape3 y = (isize0 x, isize1 x, Embedding.embedding_dim E)"
  by (auto simp add: Embedding_forward_def shape3_def split: if_splits)

lemma PositionalEncoding_forward_ok:
  assumes "PositionalEncoding_init d M = Inr P" and "size0 x \<le> M" and "size2 x = d"
  shows "\<exists>y. PositionalEncoding_forward P x = Inr y \<and> shape3 y = shape3 x"
proof -
  from PositionalEncoding_init_pe [OF assms(1)] have "shape3 (pe P) = (M, 1, d)" by blast
  with assms(2,3) show ?thesis
    by (simp add: PositionalEncoding_forward_def add_def slice0_def broadcast_size_def
        shape3_def min_def)
qed

lemma PositionalEncoding_forward_Inr:
  assumes "PositionalEncoding_init d M = Inr P" and "2 \<le> M"
    and "PositionalEncoding_forward P x = Inr y"
  shows "size0 x \<le> M"
proof (rule ccontr)
  assume "\<not> size0 x \<le> M"
  moreover from PositionalEncoding_init_pe [OF assms(1)] have "size0 (pe P) = M"
    by (simp add: shape3_def)
  ultimately have "PositionalEncoding_forward P x = Inl RuntimeError"
    using assms(2)
    by (simp add: PositionalEncoding_forward_def add_def slice0_def broadcast_size_def)
  with assms(3) show False by simp
qed

lemma Sequential_forward_ok:
  "list_all (is_TransformerBlock d h) tbs \<Longrightarrow> size2 x = d
   \<Longrightarrow> \<exists>y. Sequential_forward tbs x = Inr y \<and> shape3 y = shape3 x"
proof (induction tbs arbitrary: x)
  case Nil
  then show ?case by simp
next
  case (Cons tb tbs)
  from Cons.prems have tb: "is_TransformerBlock d h tb" and rest: "list_all (is_TransformerBlock d h) tbs"
    by simp_all
  from TransformerBlock_forward_ok [OF tb Cons.prems(2)] obtain y where
    y: "TransformerBlock_forward tb x = Inr y" and ys: "shape3 y = shape3 x" by blast
  from ys Cons.prems(2) have "size2 y = d" by (simp add: shape3_def)
  from Cons.IH [OF rest this] ys y show ?case by simp
qed

lemma SimpleLLM_forward_ok:
  assumes m: "is_SimpleLLM V d h N m" and t: "idtype x = Int64"
    and r: "\<not> index_out_of_range V x" and l: "isize1 x \<le> 5000"
  shows "\<exists>x3 out. SimpleLLM_forward m x = Inr out \<and> shape3 out = (isize0 x, isize1 x, V)
    \<and> shape3 x3 = (isize0 x, isize1 x, d)
    \<and> (\<forall>n i c. at3 out n i c
          = (\<Sum>k<d. at3 x3 n i k * Linear.weight (output' m) c k) + Linear.bias (output' m) c)"
proof -
  from m have E: "num_embeddings (embedding m) = V" "Embedding.embedding_dim (embedding m) = d"
    and P: "PositionalEncoding_init d 5000 = Inr (positional_encoding m)"
    and B: "list_all (is_TransformerBlock d h) (transformer_blocks m)"
    and O: "in_features (output' m) = d" "out_features (output' m) = V"
    by (simp_all add: is_SimpleLLM_def is_Linear_def)
  from t r E(1) obtain x1 where x1: "Embedding_forward (embedding m) x = Inr x1"
    using Embedding_forward_Inr_iff [of "embedding m" x] by auto
  from Embedding_forward_shape [OF x1] E(2)
  have x1s: "shape3 x1 = (isize0 x, isize1 x, d)" by simp
  then have "size0 (transpose01 x1) \<le> 5000" "size2 (transpose01 x1) = d"
    using l by (simp_all add: shape3_def transpose01_def)
  from PositionalEncoding_forward_ok [OF P this] obtain x2 where
    x2: "PositionalEncoding_forward (positional_encoding m) (transpose01 x1) = Inr x2"
    and x2s: "shape3 x2 = shape3 (transpose01 x1)" by blast
  from x2s x1s have t2: "shape3 (transpose01 x2) = (isize0 x, isize1 x, d)"
    by (simp add: shape3_def transpose01_def)
  then have "size2 (transpose01 x2) = d" by (simp add: shape3_def)
  from Sequential_forward_ok [OF B this] obtain x3 where
    x3: "Sequential_forward (transformer_blocks m) (transpose01 x2) = Inr x3"
    and x3s: "shape3 x3 = shape3 (transpose01 x2)" by blast
  from x3s t2 have s3: "shape3 x3 = (isize0 x, isize1 x, d)" by simp
  have "SimpleLLM_forward m x = Linear_forward (output' m) x3"
    by (simp add: SimpleLLM_forward_def x1 x2 x3)
  with s3 O have "\<exists>out. SimpleLLM_forward m x = Inr out \<and> shape3 out = (isize0 x, isize1 x, V)
    \<and> shape3 x3 = (isize0 x, isize1 x, d)
    \<and> (\<forall>n i c. at3 out n i c
          = (\<Sum>k<d. at3 x3 n i k * Linear.weight (output' m) c k) + Linear.bias (output' m) c)"
    by (simp add: Linear_forward_def shape3_def)
  then show ?thesis by (rule exI [of _ x3])
qed

lemma SimpleLLM_forward_Inr:
  assumes m: "is_SimpleLLM V d h N m" and out: "SimpleLLM_forward m x = Inr out"
  shows "idtype x = Int64 \<and> \<not> index_out_of_range V x \<and> isize1 x \<le> 5000"
proof -
  from m have E: "num_embeddings (embedding m) = V"
    and P: "PositionalEncoding_init d 5000 = Inr (positional_encoding m)"
    by (simp_all add: is_SimpleLLM_def)
  from out obtain x1 x2 where x1: "Embedding_forward (embedding m) x = Inr x1"
    and x2: "PositionalEncoding_forward (positional_encoding m) (transpose01 x1) = Inr x2"
    by (auto simp add: SimpleLLM_forward_def split: sum.splits)
  from x1 E have a: "idtype x = Int64 \<and> \<not> index_out_of_range V x"
    using Embedding_forward_Inr_iff [of "embedding m" x] by auto
  have "size0 (transpose01 x1) \<le> 5000"
    by (rule PositionalEncoding_forward_Inr [OF P _ x2]) simp
  with Embedding_forward_shape [OF x1] have "isize1 x \<le> 5000"
    by (simp add: shape3_def transpose01_def)
  with a show ?thesis by simp
qed


lemma argmax_scan_cong:
  "(\<And>j. j \<le> n \<Longrightarrow> f j = g j) \<Longrightarrow> argmax_scan f n = argmax_scan g n"
proof (induction n)
  case 0
  then show ?case by simp
next
  case (Suc n)
  then have IH: "argmax_scan f n = argmax_scan g n" by simp
  have "argmax_scan g n \<le> Suc n" using argmax_scan_le [of g n] by simp
  with Suc.prems have "f (argmax_scan g n) = g (argmax_scan g n)" "f (Suc n) = g (Suc n)"
    by simp_all
  with IH show ?case by (simp add: Let_def)
qed

lemma tensor_unsqueeze0_Inr:
  assumes "tensor_unsqueeze0 toks = Inr x"
  shows "isize0 x = 1" and "isize1 x = length toks"
    and "idtype x = (if toks = [] then Float32 else Int64)" and "iat x b i = toks ! i"
  using assms by (auto simp add: tensor_unsqueeze0_def split: if_splits)

lemma tensor_unsqueeze0_ok:
  assumes "\<forall>t \<in> set toks. 0 \<le> t \<and> t < int V" and "V \<le> 2 ^ 63"
  shows "\<exists>x. tensor_unsqueeze0 toks = Inr x"
proof -
  have "\<not> (t < - (2 ^ 63) \<or> 2 ^ 63 \<le> t)" if "t \<in> set toks" for t
  proof -
    from assms(2) have "int V \<le> 2 ^ 63" by (metis of_nat_le_iff of_nat_numeral of_nat_power)
    with assms(1) that show ?thesis by fastforce
  qed
  then show ?thesis by (auto simp add: tensor_unsqueeze0_def list_ex_iff)
qed

lemma tokens_in_range:
  assumes "tensor_unsqueeze0 toks = Inr x" and "\<forall>t \<in> set toks. 0 \<le> t \<and> t < int V"
  shows "\<not> index_out_of_range V x"
proof -
  have "0 \<le> toks ! i \<and> toks ! i < int V" if "i < length toks" for i
    using assms(2) nth_mem [OF that] by blast
  then show ?thesis
    using tensor_unsqueeze0_Inr(2,4) [OF assms(1)]
    by (fastforce simp add: index_out_of_range_iff)
qed

lemma predict_next_eq:
  assumes m: "is_SimpleLLM V d h N m" and ne: "toks \<noteq> []"
    and x: "tensor_unsqueeze0 toks = Inr x" and out: "SimpleLLM_forward m x = Inr out"
  shows "0 < V \<and> shape3 out = (1, length toks, V)
    \<and> predict_next m toks = Inr (argmax_scan (at3 out 0 (length toks - 1)) (V - 1))"
proof -
  note tx = tensor_unsqueeze0_Inr [OF x]
  from SimpleLLM_forward_Inr [OF m out] have v: "idtype x = Int64"
    "\<not> index_out_of_range V x" "isize1 x \<le> 5000" by simp_all
  from SimpleLLM_forward_ok [OF m v] out tx(1,2)
  have s: "shape3 out = (1, length toks, V)" by auto
  from v(2) ne tx(1,2) have "\<not> (iat x 0 0 < 0 \<or> int V \<le> iat x 0 0)"
    by (auto simp add: index_out_of_range_iff)
  then have V: "0 < V" by (cases V) auto
  let ?t = "\<lparr>rows = size0 out, cols = size2 out,
             at2 = (\<lambda>n k. at3 out n (size1 out - 1) k)\<rparr>"
  from s ne have sel: "select_last out = Inr ?t" by (simp add: select_last_def shape3_def)
  have "flatten2 ?t j = at3 out 0 (length toks - 1) j" if "j \<le> V - 1" for j
    using that V s by (simp add: flatten2_def shape3_def)
  then have "argmax_scan (flatten2 ?t) (V - 1) = argmax_scan (at3 out 0 (length toks - 1)) (V - 1)"
    by (rule argmax_scan_cong)
  with V s have "argmax ?t = Inr (argmax_scan (at3 out 0 (length toks - 1)) (V - 1))"
    by (simp add: argmax_def shape3_def)
  then have "predict_next m toks = Inr (argmax_scan (at3 out 0 (length toks - 1)) (V - 1))"
    by (simp add: predict_next_def x out sel)
  with V s show ?thesis by simp
qed

lemma is_example_SimpleLLM: "is_SimpleLLM 7 16 32 2 example_SimpleLLM"
proof -
  have "\<exists>P. PositionalEncoding_init 16 5000 = Inr P"
    by (simp add: PositionalEncoding_init_Inr_iff)
  then have "PositionalEncoding_init 16 5000 = Inr (projr (PositionalEncoding_init 16 5000))"
    by auto
  then show ?thesis
    by (simp add: is_SimpleLLM_def example_SimpleLLM_def is_example_TransformerBlock is_Linear_def)
qed

section \<open>Properties of self-attention in the range of \<open>float32\<close>\<close>










section \<open>Properties of the calls\<close>

text \<open>
  Every call returns what the forward pass computes and leaves its module as it was:
  for a method of the notebook this follows from the same fact about the submodules it
  calls.
\<close>

lemma call_sub_unchanged:
  assumes "f (getf s) = (r, getf s)" and "setf s (getf s) = s"
  shows "call_sub getf setf f s = (r, s)"
  using assms by (simp add: call_sub_def)

lemma then_call_unchanged:
  assumes "c s = (r, s)"
  shows "then_call c f s = (case r of Inl e \<Rightarrow> (Inl e, s) | Inr v \<Rightarrow> f v s)"
  using assms by (simp add: then_call_def split: sum.splits)

lemma SelfAttention_call_eq: "SelfAttention_call sa x = (SelfAttention_forward sa x, sa)"
  by (simp add: SelfAttention_call_def SelfAttention_forward_def SelfAttention_locals_def
      then_call_def call_sub_def return_call_def Linear_call_def Let_def split: sum.splits)

lemma feed_forward_call_eq: "feed_forward_call tb x = (feed_forward tb x, tb)"
  by (simp add: feed_forward_call_def feed_forward_def then_call_def call_sub_def
      Linear_call_def split: sum.splits)

lemma TransformerBlock_call_eq:
  "TransformerBlock_call tb x = (TransformerBlock_forward tb x, tb)"
  by (simp add: TransformerBlock_call_def TransformerBlock_forward_def then_call_def
      call_sub_def return_call_def LayerNorm_call_def SelfAttention_call_eq
      feed_forward_call_eq split: sum.splits)

lemma Sequential_call_eq: "Sequential_call tbs x = (Sequential_forward tbs x, tbs)"
  by (induction tbs arbitrary: x) (simp_all add: TransformerBlock_call_eq split: sum.splits)

lemma SimpleLLM_call_eq: "SimpleLLM_call m x = (SimpleLLM_forward m x, m)"
  by (simp add: SimpleLLM_call_def SimpleLLM_forward_def then_call_def call_sub_def
      Embedding_call_def PositionalEncoding_call_def PositionalEncoding_forward_def
      return_call_def Sequential_call_eq Linear_call_def split: sum.splits)

lemma predict_next_call_eq: "predict_next_call m toks = (predict_next m toks, m)"
  by (simp add: predict_next_call_def predict_next_def then_call_def return_call_def
      SimpleLLM_call_eq split: sum.splits)


section \<open>The claims\<close>

text \<open>
  Claim C3. For every text and every vocabulary that has the \<open><UNK>\<close> entry,
  \<open>tokenize\<close> returns the ids of the whitespace-split words of the text, in order, with
  the \<open><UNK>\<close> id for each word that is not in the vocabulary, and does not raise. When
  \<open>tokenize\<close> does raise, the error is the \<open>KeyError\<close> of the missing \<open><UNK>\<close> entry.
\<close>

theorem tokenize_unknown_words:
  "(vocab UNK = Some unk \<longrightarrow>
      tokenize text vocab
        = Inr (map (\<lambda>w. case vocab w of None \<Rightarrow> unk | Some i \<Rightarrow> i) (split text)))
   \<and> (tokenize text vocab = Inl e \<longrightarrow> e = KeyError \<and> vocab UNK = None)"
proof (cases "vocab UNK")
  case None
  then show ?thesis
    by (cases "split text") (simp_all add: tokenize_def)
next
  case (Some u)
  then show ?thesis by (simp add: tokenize_def tokenize_words_Some)
qed

theorem tokenize_unknown_words_witness:
  "notebook_vocab UNK = Some 6
   \<and> tokenize (py_str ''hello xyz'') notebook_vocab = Inr [0, 6]
   \<and> tokenize (py_str ''xyz'') notebook_vocab = Inr [6]"
proof -
  have u: "notebook_vocab UNK = Some 6" by (simp add: notebook_vocab_def UNK_def)
  have s1: "split (py_str ''hello xyz'') = [py_str ''hello'', py_str ''xyz'']"
    by (simp add: split_def py_str_def isspace_def)
  have s2: "split (py_str ''xyz'') = [py_str ''xyz'']"
    by (simp add: split_def py_str_def isspace_def)
  from tokenize_unknown_words [of notebook_vocab 6 "py_str ''hello xyz''"] u
  have "tokenize (py_str ''hello xyz'') notebook_vocab = Inr [0, 6]"
    by (simp add: s1 notebook_vocab_def)
  moreover from tokenize_unknown_words [of notebook_vocab 6 "py_str ''xyz''"] u
  have "tokenize (py_str ''xyz'') notebook_vocab = Inr [6]"
    by (simp add: s2 notebook_vocab_def)
  ultimately show ?thesis using u by simp
qed

text \<open>
  Claim C10. \<open>tokenize\<close> looks the \<open><UNK>\<close> entry up for each word before it looks the
  word up: for a text with at least one word (a character that is not whitespace) it
  raises \<open>KeyError\<close> whenever \<open><UNK>\<close> is missing, also when every word is in the
  vocabulary; for an empty or whitespace-only text it returns the empty list, with or
  without the \<open><UNK>\<close> entry.
\<close>

theorem tokenize_unk_lookup_first:
  "(vocab UNK = None \<and> (\<exists>c \<in> set text. \<not> isspace c) \<longrightarrow> tokenize text vocab = Inl KeyError)
   \<and> ((\<forall>c \<in> set text. isspace c) \<longrightarrow> tokenize text vocab = Inr [])"
proof (intro conjI impI)
  assume a: "vocab UNK = None \<and> (\<exists>c \<in> set text. \<not> isspace c)"
  then have "split text \<noteq> []" by (simp add: split_Nil_iff)
  with a show "tokenize text vocab = Inl KeyError"
    by (simp add: tokenize_def tokenize_words_None)
next
  assume "\<forall>c \<in> set text. isspace c"
  then have "split text = []" by (simp add: split_Nil_iff)
  then show "tokenize text vocab = Inr []" by (simp add: tokenize_def)
qed

theorem tokenize_unk_lookup_first_witness:
  "vocab_without_unk UNK = None
   \<and> vocab_without_unk (py_str ''hello'') = Some 0
   \<and> split (py_str ''hello'') = [py_str ''hello'']
   \<and> tokenize (py_str ''hello'') vocab_without_unk = Inl KeyError
   \<and> tokenize (py_str ''  '') vocab_without_unk = Inr []
   \<and> tokenize (py_str ''  '') notebook_vocab = Inr []
   \<and> tokenize [] vocab_without_unk = Inr []"
proof -
  have u: "vocab_without_unk UNK = None" by (simp add: vocab_without_unk_def UNK_def)
  have h: "vocab_without_unk (py_str ''hello'') = Some 0" by (simp add: vocab_without_unk_def)
  have s: "split (py_str ''hello'') = [py_str ''hello'']"
    by (simp add: split_def py_str_def isspace_def)
  have c: "\<exists>c \<in> set (py_str ''hello''). \<not> isspace c" by (simp add: py_str_def isspace_def)
  have w: "\<forall>c \<in> set (py_str ''  ''). isspace c" by (simp add: py_str_def isspace_def)
  have e: "\<forall>c \<in> set ([] :: str). isspace c" by simp
  from tokenize_unk_lookup_first [of vocab_without_unk "py_str ''hello''"] u c
  have 1: "tokenize (py_str ''hello'') vocab_without_unk = Inl KeyError" by blast
  from tokenize_unk_lookup_first [of vocab_without_unk "py_str ''  ''"] w
  have 2: "tokenize (py_str ''  '') vocab_without_unk = Inr []" by blast
  from tokenize_unk_lookup_first [of notebook_vocab "py_str ''  ''"] w
  have 3: "tokenize (py_str ''  '') notebook_vocab = Inr []" by blast
  from tokenize_unk_lookup_first [of vocab_without_unk "[]"] e
  have 4: "tokenize [] vocab_without_unk = Inr []" by blast
  from u h s 1 2 3 4 show ?thesis by simp
qed


text \<open>
  Claim C1. For a non-empty sequence \<open>x\<close> of shape \<open>L \<times> d\<close> (each element of the batch),
  \<open>SelfAttention.forward\<close> returns what the steps of the specification compute:
  \<open>Q\<close>, \<open>K\<close> and \<open>V\<close> by the three learned maps, the scores \<open>Q K\<^sup>T\<close> scaled by
  \<open>1 / sqrt d\<close>, the row-wise softmax, and the product of the weights with \<open>V\<close>. No
  mask is applied: the weight at every pair \<open>(i, j)\<close>, also with \<open>j > i\<close>, is the
  softmax of the scaled score.
\<close>

theorem SelfAttention_forward_composition:
  assumes "is_SelfAttention d sa" and "size1 x = L" and "size2 x = d" and "0 < L" and "0 < d"
  shows "\<exists>w y. SelfAttention_locals sa x = Inr (w, y) \<and> SelfAttention_forward sa x = Inr y
           \<and> shape3 w = (size0 x, L, L) \<and> shape3 y = (size0 x, L, d)
           \<and> (\<forall>n i j. at3 w n i j = spec_attention_weights sa L d (at3 x n) i j)
           \<and> (\<forall>n i c. at3 y n i c = spec_attend sa L d (at3 x n) i c)"
  using assms(2) SelfAttention_locals_ok [OF assms(1) assms(3)]
  by (simp add: SelfAttention_forward_def shape3_def)

theorem SelfAttention_forward_composition_witness:
  "is_SelfAttention 2 (example_SelfAttention 2) \<and> size1 example_sequence = 2
   \<and> size2 example_sequence = 2 \<and> (0::nat) < 2
   \<and> (\<exists>w y. SelfAttention_locals (example_SelfAttention 2) example_sequence = Inr (w, y)
           \<and> SelfAttention_forward (example_SelfAttention 2) example_sequence = Inr y
           \<and> shape3 w = (size0 example_sequence, 2, 2) \<and> shape3 y = (size0 example_sequence, 2, 2)
           \<and> (\<forall>n i j. at3 w n i j
                 = spec_attention_weights (example_SelfAttention 2) 2 2 (at3 example_sequence n) i j)
           \<and> (\<forall>n i c. at3 y n i c
                 = spec_attend (example_SelfAttention 2) 2 2 (at3 example_sequence n) i c)
           \<and> at3 w 0 0 1 = 1 / (exp (1 / sqrt 2) + 1))"
proof -
  have 1: "is_SelfAttention 2 (example_SelfAttention 2)" by (rule is_example_SelfAttention)
  have 2: "size1 example_sequence = 2" by (simp add: example_sequence_def)
  have 3: "size2 example_sequence = 2" by (simp add: example_sequence_def)
  have 4: "(0::nat) < 2" by simp
  have 5: "spec_attention_weights (example_SelfAttention 2) 2 2 (at3 example_sequence 0) 0 1
         = 1 / (exp (1 / sqrt 2) + 1)"
    by (simp add: spec_attention_weights_def spec_softmax_def spec_scaled_def spec_scores_def
        spec_project_def example_SelfAttention_def example_Linear_def example_sequence_def
        lessThan_Suc numeral_2_eq_2 add.commute)
  from SelfAttention_forward_composition [OF 1 2 3 4 4] obtain w y where
    wy: "SelfAttention_locals (example_SelfAttention 2) example_sequence = Inr (w, y)"
      "SelfAttention_forward (example_SelfAttention 2) example_sequence = Inr y"
      "shape3 w = (size0 example_sequence, 2, 2)" "shape3 y = (size0 example_sequence, 2, 2)"
      "\<forall>n i j. at3 w n i j
         = spec_attention_weights (example_SelfAttention 2) 2 2 (at3 example_sequence n) i j"
      "\<forall>n i c. at3 y n i c
         = spec_attend (example_SelfAttention 2) 2 2 (at3 example_sequence n) i c"
    by blast
  from wy(5) 5 have "at3 w 0 0 1 = 1 / (exp (1 / sqrt 2) + 1)" by simp
  with wy 1 2 3 4 show ?thesis by blast
qed






text \<open>
  Claim C8, as stated: \<open>SelfAttention.forward\<close> on an empty sequence fails. It does not:
  on a sequence of shape (1, 0, 2) it returns a tensor of shape (1, 0, 2).
\<close>

theorem empty_sequence_attended: 
  "map_sum id shape3 (SelfAttention_forward (example_SelfAttention 2) empty_sequence) = Inr (1, 0, 2)"
  using SelfAttention_locals_ok [OF is_example_SelfAttention, of empty_sequence 2]
  by (simp add: SelfAttention_forward_def shape3_def empty_sequence_def)

text \<open>
  Claim C8, amended. \<open>SelfAttention.forward\<close> has no check of the sequence length: on
  an empty sequence (\<open>L = 0\<close>) of feature dimension \<open>d\<close> it raises no error and returns
  the empty sequence, of shape \<open>0 \<times> d\<close>.
\<close>

theorem SelfAttention_forward_empty:
  assumes "is_SelfAttention d sa" and "size1 x = 0" and "size2 x = d"
  shows "\<exists>y. SelfAttention_forward sa x = Inr y \<and> shape3 y = (size0 x, 0, d)"
  using assms(2) SelfAttention_locals_ok [OF assms(1) assms(3)]
  by (simp add: SelfAttention_forward_def shape3_def)


theorem SelfAttention_forward_empty_witness:
  "is_SelfAttention 2 (example_SelfAttention 2) \<and> size1 empty_sequence = 0
   \<and> size2 empty_sequence = 2
   \<and> (\<exists>y. SelfAttention_forward (example_SelfAttention 2) empty_sequence = Inr y
          \<and> shape3 y = (size0 empty_sequence, 0, 2))"
proof -
  have 1: "is_SelfAttention 2 (example_SelfAttention 2)" by (rule is_example_SelfAttention)
  have 2: "size1 empty_sequence = 0" by (simp add: empty_sequence_def)
  have 3: "size2 empty_sequence = 2" by (simp add: empty_sequence_def)
  from SelfAttention_forward_empty [OF 1 2 3] 1 2 3 show ?thesis by blast
qed

text \<open>
  Claim C5. In the table that \<open>PositionalEncoding.__init__\<close> builds, the vector of
  position \<open>p\<close> has \<open>sin (p / 10000 ^ (2k / d))\<close> at the even index \<open>2k\<close> and
  \<open>cos (p / 10000 ^ (2k / d))\<close> at the odd index \<open>2k + 1\<close>: a function of the position
  and of \<open>d\<close> alone, fixed at construction.
\<close>

theorem positional_encoding_table:
  assumes "PositionalEncoding_init d M = Inr P" and "p < M"
  shows "shape3 (pe P) = (M, 1, d)
    \<and> (2 * k < d \<longrightarrow> at3 (pe P) p 0 (2 * k) = sin (real p / 10000 powr (real (2 * k) / real d)))
    \<and> (2 * k + 1 < d \<longrightarrow>
          at3 (pe P) p 0 (2 * k + 1) = cos (real p / 10000 powr (real (2 * k) / real d)))"
proof -
  from assms(1) have "\<exists>P. PositionalEncoding_init d M = Inr P" by blast
  then have d: "0 < d" by (simp add: PositionalEncoding_init_Inr_iff)
  have t: "real p * div_term d k = real p / 10000 powr (real (2 * k) / real d)"
    by (simp add: div_term_powr [OF d])
  from PositionalEncoding_init_pe [OF assms(1)] assms(2)
  have v: "\<forall>j<d. at3 (pe P) p 0 j =
          (if even j then sin (real p * div_term d (j div 2))
           else cos (real p * div_term d (j div 2)))"
    and s: "shape3 (pe P) = (M, 1, d)" by blast+
  have "at3 (pe P) p 0 (2 * k) = sin (real p * div_term d k)" if "2 * k < d"
    using v that by simp
  moreover have "at3 (pe P) p 0 (2 * k + 1) = cos (real p * div_term d k)" if "2 * k + 1 < d"
    using v that by simp
  ultimately show ?thesis using s unfolding t by blast
qed

theorem positional_encoding_table_witness:
  "\<exists>P. PositionalEncoding_init 16 5000 = Inr P \<and> (3::nat) < 5000
     \<and> shape3 (pe P) = (5000, 1, 16)
     \<and> at3 (pe P) 3 0 4 = sin (3 / 10000 powr (4 / 16))
     \<and> at3 (pe P) 3 0 5 = cos (3 / 10000 powr (4 / 16))"
proof -
  have "\<exists>P. PositionalEncoding_init 16 5000 = Inr P"
    by (simp add: PositionalEncoding_init_Inr_iff)
  then obtain P where P: "PositionalEncoding_init 16 5000 = Inr P" ..
  have p: "(3::nat) < 5000" by simp
  from positional_encoding_table [OF P p, of 2] P show ?thesis
    by (intro exI [of _ P]) simp
qed

text \<open>
  Claim C2, as stated: \<open>PositionalEncoding.forward\<close> fails on every sequence longer than
  \<open>max_seq_len\<close>. With \<open>max_seq_len = 1\<close> it does not: the single row of the table is
  broadcast, and a sequence of two positions comes back with the encoding of position 0
  (\<open>sin 0 = 0\<close>, \<open>cos 0 = 1\<close>) added at position 1.
\<close>

theorem PositionalEncoding_forward_broadcast:
  "(case PositionalEncoding_init 2 1 of
      Inl e \<Rightarrow> Inl e
    | Inr P \<Rightarrow> map_sum id (\<lambda>y. (size0 (pe P), shape3 y, at3 y 1 0 0, at3 y 1 0 1))
               (PositionalEncoding_forward P two_positions))
   = Inr (1, (2, 1, 2), 0, 1)"
proof -
  have "\<exists>P. PositionalEncoding_init 2 1 = Inr P"
    by (simp add: PositionalEncoding_init_Inr_iff)
  then obtain P where P: "PositionalEncoding_init 2 1 = Inr P" ..
  from PositionalEncoding_init_pe [OF P]
  have s: "size0 (pe P) = 1" "size1 (pe P) = 1" "size2 (pe P) = 2"
    and v: "at3 (pe P) 0 0 0 = 0" "at3 (pe P) 0 0 1 = 1"
    by (simp_all add: shape3_def)
  show ?thesis unfolding P using s v
    by (simp add: PositionalEncoding_forward_def add_def slice0_def broadcast_size_def
        bidx_def two_positions_def shape3_def)
qed


text \<open>
  Claim C2, amended. \<open>PositionalEncoding.forward\<close> has no check of the sequence length;
  the slice \<open>pe[:L]\<close> is cut at \<open>max_seq_len\<close> rows and the addition fails on the
  shapes. For \<open>max_seq_len \<ge> 2\<close> (the model uses the default 5000) and a sequence
  longer than \<open>max_seq_len\<close>, the call raises torch's \<open>RuntimeError\<close>, the error of
  every shape mismatch, which is not the \<open>IndexError\<close> of an index out of range; no
  truncated or wrapped result is returned.
\<close>

theorem PositionalEncoding_forward_too_long:
  assumes "PositionalEncoding_init d M = Inr P" and "2 \<le> M" and "M < size0 x"
  shows "PositionalEncoding_forward P x = Inl RuntimeError
    \<and> PositionalEncoding_forward P x \<noteq> Inl IndexError"
proof -
  from PositionalEncoding_init_pe [OF assms(1)] have "size0 (pe P) = M"
    by (simp add: shape3_def)
  with assms(2,3) show ?thesis
    by (simp add: PositionalEncoding_forward_def add_def slice0_def broadcast_size_def)
qed

theorem PositionalEncoding_forward_too_long_witness:
  "\<exists>P. PositionalEncoding_init 2 2 = Inr P \<and> (2::nat) \<le> 2 \<and> 2 < size0 three_positions
     \<and> PositionalEncoding_forward P three_positions = Inl RuntimeError
     \<and> PositionalEncoding_forward P three_positions \<noteq> Inl IndexError"
proof -
  have "\<exists>P. PositionalEncoding_init 2 2 = Inr P"
    by (simp add: PositionalEncoding_init_Inr_iff)
  then obtain P where P: "PositionalEncoding_init 2 2 = Inr P" ..
  have m: "(2::nat) \<le> 2" by simp
  have l: "2 < size0 three_positions" by (simp add: three_positions_def)
  from PositionalEncoding_forward_too_long [OF P m l] P m l show ?thesis
    by (intro exI [of _ P]) simp
qed

text \<open>
  Claim C6, as stated: each layer norm of the block normalizes a position's vector to
  unit variance. It does not: \<open>nn.LayerNorm\<close> divides by \<open>sqrt (Var + eps)\<close>. On a
  position whose features are equal, a block whose layer norms have scale 1 and shift 0
  returns the vector \<open>(0, 0)\<close>, of variance 0.
\<close>

theorem TransformerBlock_constant_vector:
  "map_sum id (\<lambda>y. (at3 y 0 0 0, at3 y 0 0 1, var 2 (at3 y 0 0)))
     (TransformerBlock_forward (example_TransformerBlock 2 2) constant_sequence) = Inr (0, 0, 0)"
  by (simp add: TransformerBlock_forward_def SelfAttention_forward_def SelfAttention_locals_def
      Linear_forward_def bmm_def transpose12_def div_scalar_def softmax_def add_def
      broadcast_size_def bidx_def feed_forward_def relu_def
      LayerNorm_forward_def example_LayerNorm_def constant_sequence_def
      example_TransformerBlock_def example_SelfAttention_def example_Linear_def
      mean_def var_def lessThan_Suc numeral_2_eq_2 Let_def)

text \<open>
  Claim C6, amended. For a sequence \<open>x\<close> of shape \<open>L \<times> d\<close> (each element of the batch),
  \<open>TransformerBlock.forward\<close> returns \<open>LayerNorm2 (x1 + FeedForward x1)\<close> with
  \<open>x1 = LayerNorm1 (x + attend x)\<close>, the feed-forward network being linear (\<open>d\<close> to
  \<open>h\<close>), ReLU, linear (\<open>h\<close> to \<open>d\<close>); the output has the shape of the input. Each
  layer norm normalizes a position's vector to mean 0 and variance
  \<open>Var / (Var + eps)\<close> with \<open>eps = 1e-5\<close>, and then applies its scale and shift.
\<close>

theorem TransformerBlock_forward_composition:
  assumes "is_TransformerBlock d h tb" and "size1 x = L" and "size2 x = d" and "0 < d"
  shows "\<exists>y. TransformerBlock_forward tb x = Inr y \<and> shape3 y = shape3 x
    \<and> (\<forall>n<size0 x. \<forall>i<L. \<forall>k<d. at3 y n i k = spec_process tb L d (at3 x n) i k)
    \<and> (\<forall>layer \<in> {norm1 tb, norm2 tb}. \<forall>v.
          normalized_shape layer = d \<and> eps layer = 1 / 100000
          \<and> mean d (spec_normalize (eps layer) d v) = 0
          \<and> var d (spec_normalize (eps layer) d v) = var d v / (var d v + eps layer))"
proof -
  from assms(1) have e: "is_LayerNorm d (norm1 tb)" "is_LayerNorm d (norm2 tb)"
    by (simp_all add: is_TransformerBlock_def)
  have "normalized_shape layer = d \<and> eps layer = 1 / 100000
          \<and> mean d (spec_normalize (eps layer) d v) = 0
          \<and> var d (spec_normalize (eps layer) d v) = var d v / (var d v + eps layer)"
    if "is_LayerNorm d layer" for layer v
  proof -
    from that have n: "normalized_shape layer = d" and l: "eps layer = 1 / 100000"
      by (simp_all add: is_LayerNorm_def)
    have "0 < eps layer" unfolding l by simp
    from var_normalize [OF assms(4) this, of v] mean_normalize [OF assms(4), of "eps layer" v] n l
    show ?thesis by blast
  qed
  with e TransformerBlock_forward_ok [OF assms(1,3)] assms(2) show ?thesis by auto
qed

theorem TransformerBlock_forward_composition_witness:
  "is_TransformerBlock 2 3 (example_TransformerBlock 2 3) \<and> size1 example_sequence = 2
   \<and> size2 example_sequence = 2 \<and> (0::nat) < 2
   \<and> (\<exists>y. TransformerBlock_forward (example_TransformerBlock 2 3) example_sequence = Inr y
        \<and> shape3 y = shape3 example_sequence
        \<and> at3 y 0 1 0 = spec_process (example_TransformerBlock 2 3) 2 2 (at3 example_sequence 0) 1 0
        \<and> mean 2 (spec_normalize (eps (norm1 (example_TransformerBlock 2 3))) 2 (at3 example_sequence 0 1)) = 0
        \<and> var 2 (spec_normalize (eps (norm1 (example_TransformerBlock 2 3))) 2 (at3 example_sequence 0 1))
            = var 2 (at3 example_sequence 0 1) / (var 2 (at3 example_sequence 0 1) + 1 / 100000))"
proof -
  have 1: "is_TransformerBlock 2 3 (example_TransformerBlock 2 3)"
    by (rule is_example_TransformerBlock)
  have 2: "size1 example_sequence = 2" by (simp add: example_sequence_def)
  have 3: "size2 example_sequence = 2" by (simp add: example_sequence_def)
  have 4: "(0::nat) < 2" by simp
  have 5: "size0 example_sequence = 1" by (simp add: example_sequence_def)
  from TransformerBlock_forward_composition [OF 1 2 3 4] obtain y where
    y: "TransformerBlock_forward (example_TransformerBlock 2 3) example_sequence = Inr y"
      "shape3 y = shape3 example_sequence"
      "\<forall>n<size0 example_sequence. \<forall>i<2. \<forall>k<2.
         at3 y n i k = spec_process (example_TransformerBlock 2 3) 2 2 (at3 example_sequence n) i k"
      "\<forall>layer \<in> {norm1 (example_TransformerBlock 2 3), norm2 (example_TransformerBlock 2 3)}. \<forall>v.
          normalized_shape layer = 2 \<and> eps layer = 1 / 100000
          \<and> mean 2 (spec_normalize (eps layer) 2 v) = 0
          \<and> var 2 (spec_normalize (eps layer) 2 v) = var 2 v / (var 2 v + eps layer)"
    by blast
  from y(3) 5 have a: "at3 y 0 1 0
      = spec_process (example_TransformerBlock 2 3) 2 2 (at3 example_sequence 0) 1 0"
    by simp
  from y(4) have b: "\<forall>v. eps (norm1 (example_TransformerBlock 2 3)) = 1 / 100000
          \<and> mean 2 (spec_normalize (eps (norm1 (example_TransformerBlock 2 3))) 2 v) = 0
          \<and> var 2 (spec_normalize (eps (norm1 (example_TransformerBlock 2 3))) 2 v)
              = var 2 v / (var 2 v + eps (norm1 (example_TransformerBlock 2 3)))"
    by blast
  from b [rule_format, of "at3 example_sequence 0 1"] 1 2 3 4 y(1,2) a show ?thesis
    by (intro conjI exI [of _ y]) simp_all
qed



text \<open>
  Claim C4. For a non-empty sequence of token ids on which the forward pass returns,
  \<open>predict_next\<close> returns an index of the logit row of the last position: the index of
  a maximum of that row, and the lowest index when two or more logits are tied for the
  maximum (every logit before it is strictly smaller).
\<close>

theorem predict_next_first_maximum:
  assumes "is_SimpleLLM V d h N m" and "input_tokens \<noteq> []"
    and "tensor_unsqueeze0 input_tokens = Inr input_tensor"
    and "SimpleLLM_forward m input_tensor = Inr out"
  shows "\<exists>i. predict_next m input_tokens = Inr i \<and> i < V
    \<and> shape3 out = (1, length input_tokens, V)
    \<and> (\<forall>j<V. at3 out 0 (length input_tokens - 1) j \<le> at3 out 0 (length input_tokens - 1) i)
    \<and> (\<forall>j<i. at3 out 0 (length input_tokens - 1) j < at3 out 0 (length input_tokens - 1) i)"
proof -
  let ?row = "at3 out 0 (length input_tokens - 1)"
  let ?i = "argmax_scan ?row (V - 1)"
  from predict_next_eq [OF assms] have V: "0 < V"
    and s: "shape3 out = (1, length input_tokens, V)"
    and p: "predict_next m input_tokens = Inr ?i" by simp_all
  have "?i < V" using argmax_scan_le [of ?row "V - 1"] V by simp
  moreover have "?row j \<le> ?row ?i" if "j < V" for j
    using that by (intro argmax_scan_max) simp
  moreover have "?row j < ?row ?i" if "j < ?i" for j
    using that by (rule argmax_scan_first)
  ultimately show ?thesis using p s by blast
qed

theorem predict_next_first_maximum_witness:
  "is_SimpleLLM 7 16 32 2 example_SimpleLLM \<and> [0, 1] \<noteq> ([] :: int list)
   \<and> (\<exists>x out. tensor_unsqueeze0 [0, 1] = Inr x
         \<and> SimpleLLM_forward example_SimpleLLM x = Inr out
         \<and> shape3 out = (1, 2, 7)
         \<and> map (at3 out 0 1) [0, 1, 2, 3, 4, 5, 6] = [0, 0, 1, 0, 0, 1, 0]
         \<and> predict_next example_SimpleLLM [0, 1] = Inr 2)"
proof -
  note m = is_example_SimpleLLM
  have ne: "[0, 1] \<noteq> ([] :: int list)" by simp
  have "\<exists>x. tensor_unsqueeze0 [0, 1] = Inr x" by (simp add: tensor_unsqueeze0_def)
  then obtain x where x: "tensor_unsqueeze0 [0, 1] = Inr x" ..
  note tx = tensor_unsqueeze0_Inr [OF x]
  have r: "\<not> index_out_of_range 7 x" by (rule tokens_in_range [OF x]) simp
  from tx have t: "idtype x = Int64" and l: "isize1 x \<le> 5000" by simp_all
  from SimpleLLM_forward_ok [OF m t r l] obtain out where
    out: "SimpleLLM_forward example_SimpleLLM x = Inr out"
    and row: "\<And>c. at3 out 0 (Suc 0) c = (if c = 2 \<or> c = 5 then 1 else 0)"
    by (auto simp add: example_SimpleLLM_def)
  from predict_next_first_maximum [OF m ne x out] obtain i where
    p: "predict_next example_SimpleLLM [0, 1] = Inr i" and s: "shape3 out = (1, 2, 7)"
    and mx: "\<forall>j<7. at3 out 0 1 j \<le> at3 out 0 1 i"
    and fst: "\<forall>j<i. at3 out 0 1 j < at3 out 0 1 i"
    by auto
  from mx [rule_format, of 2] have "i = 2 \<or> i = 5" by (simp add: row split: if_splits)
  moreover have "i \<noteq> 5"
  proof
    assume "i = 5"
    with fst [rule_format, of 2] show False by (simp add: row)
  qed
  ultimately have "i = 2" by simp
  with m ne x out s p show ?thesis by (simp add: row)
qed

text \<open>
  Claim C9. For fixed weights and a valid sequence of token ids (non-empty, at most
  5000 ids, each within the vocabulary), a call of \<open>forward\<close> and a call of
  \<open>predict_next\<close> return a result and leave the model, with every submodule, as it
  was; the result is the value of the function \<open>SimpleLLM_forward\<close> of the weights and
  the input, and a second call with the same input, on the model the first call left,
  returns the same result.
\<close>

theorem forward_deterministic:
  assumes "is_SimpleLLM V d h N m" and "input_tokens \<noteq> []" and "length input_tokens \<le> 5000"
    and "\<forall>t \<in> set input_tokens. 0 \<le> t \<and> t < int V" and "V \<le> 2 ^ 63"
  shows "\<exists>x out i. tensor_unsqueeze0 input_tokens = Inr x
    \<and> SimpleLLM_call m x = (Inr out, m)
    \<and> SimpleLLM_call (snd (SimpleLLM_call m x)) x = (Inr out, m)
    \<and> SimpleLLM_forward m x = Inr out
    \<and> predict_next_call m input_tokens = (Inr i, m)
    \<and> predict_next_call (snd (predict_next_call m input_tokens)) input_tokens = (Inr i, m)
    \<and> predict_next m input_tokens = Inr i"
proof -
  from tensor_unsqueeze0_ok [OF assms(4,5)] obtain x where
    x: "tensor_unsqueeze0 input_tokens = Inr x" ..
  note tx = tensor_unsqueeze0_Inr [OF x]
  from tx(3) assms(2) have t: "idtype x = Int64" by simp
  from tx(2) assms(3) have l: "isize1 x \<le> 5000" by simp
  from SimpleLLM_forward_ok [OF assms(1) t tokens_in_range [OF x assms(4)] l] obtain out where
    out: "SimpleLLM_forward m x = Inr out" by blast
  from predict_next_eq [OF assms(1,2) x out] obtain i where
    i: "predict_next m input_tokens = Inr i" by blast
  show ?thesis
    using x out i by (simp add: SimpleLLM_call_eq predict_next_call_eq)
qed

theorem forward_deterministic_witness:
  "is_SimpleLLM 7 16 32 2 example_SimpleLLM \<and> [0, 1] \<noteq> ([] :: int list)
   \<and> length [0 :: int, 1] \<le> 5000 \<and> (7 :: nat) \<le> 2 ^ 63
   \<and> (\<exists>x out i. tensor_unsqueeze0 [0, 1] = Inr x
    \<and> SimpleLLM_call example_SimpleLLM x = (Inr out, example_SimpleLLM)
    \<and> SimpleLLM_call (snd (SimpleLLM_call example_SimpleLLM x)) x = (Inr out, example_SimpleLLM)
    \<and> SimpleLLM_forward example_SimpleLLM x = Inr out
    \<and> predict_next_call example_SimpleLLM [0, 1] = (Inr i, example_SimpleLLM)
    \<and> predict_next_call (snd (predict_next_call example_SimpleLLM [0, 1])) [0, 1]
        = (Inr i, example_SimpleLLM)
    \<and> predict_next example_SimpleLLM [0, 1] = Inr i)"
proof -
  note m = is_example_SimpleLLM
  have ne: "[0, 1] \<noteq> ([] :: int list)" by simp
  have l: "length [0 :: int, 1] \<le> 5000" by simp
  have r: "\<forall>t \<in> set [0, 1]. 0 \<le> t \<and> t < int 7" by simp
  have v: "(7 :: nat) \<le> 2 ^ 63" by simp
  from forward_deterministic [OF m ne l r v] m ne l v show ?thesis by blast
qed

end
